theory Spec2Isabelle
  imports Main
begin

unbundle bit_operations_syntax

section \<open>Qt geometry as the program uses it\<close>

text \<open>
  KomoCap is a PyQt5 program. Its rectangles are Qt 5 \<open>QRect\<close> values, which store the
  two corner pixels \<open>x1, y1, x2, y2\<close> (both inclusive), not a width and a height:
  \<^item> \<open>QRect()\<close> is \<open>(0, 0, -1, -1)\<close>;
  \<^item> \<open>QRect(topLeft, bottomRight)\<close> stores the two points as they are;
  \<^item> \<open>QRect(x, y, w, h)\<close> stores \<open>(x, y, x + w - 1, y + h - 1)\<close>;
  \<^item> \<open>width() = x2 - x1 + 1\<close>, \<open>height() = y2 - y1 + 1\<close>;
  \<^item> \<open>isNull()\<close> holds when width and height are both 0, \<open>isValid()\<close> when both are
    positive;
  \<^item> \<open>normalized()\<close> swaps the corners of an axis when \<open>x2 < x1 - 1\<close> (Qt 5).
  The Python truth value of a \<open>QRect\<close> is \<open>isValid()\<close> (PyQt5 defines \<open>__bool__\<close> so).
  Coordinates are unbounded integers here; Qt's are 32-bit, so a statement about a
  rectangle built from text carries the hypothesis that its coordinates fit 32 bits.
\<close>

record qpoint =
  xp :: int
  yp :: int

record qrect =
  x1 :: int
  y1 :: int
  x2 :: int
  y2 :: int

definition QPoint :: "int \<Rightarrow> int \<Rightarrow> qpoint" where
  "QPoint a b = \<lparr>xp = a, yp = b\<rparr>"

definition QRect_null :: qrect where
  "QRect_null = \<lparr>x1 = 0, y1 = 0, x2 = - 1, y2 = - 1\<rparr>"

definition QRect_points :: "qpoint \<Rightarrow> qpoint \<Rightarrow> qrect" where
  "QRect_points topLeft bottomRight =
     \<lparr>x1 = xp topLeft, y1 = yp topLeft, x2 = xp bottomRight, y2 = yp bottomRight\<rparr>"

definition QRect_xywh :: "int \<Rightarrow> int \<Rightarrow> int \<Rightarrow> int \<Rightarrow> qrect" where
  "QRect_xywh x y w h = \<lparr>x1 = x, y1 = y, x2 = x + w - 1, y2 = y + h - 1\<rparr>"

definition rect_x :: "qrect \<Rightarrow> int" where
  "rect_x r = x1 r"

definition rect_y :: "qrect \<Rightarrow> int" where
  "rect_y r = y1 r"

definition width :: "qrect \<Rightarrow> int" where
  "width r = x2 r - x1 r + 1"

definition height :: "qrect \<Rightarrow> int" where
  "height r = y2 r - y1 r + 1"

definition isNull :: "qrect \<Rightarrow> bool" where
  "isNull r \<longleftrightarrow> x2 r = x1 r - 1 \<and> y2 r = y1 r - 1"

definition isValid :: "qrect \<Rightarrow> bool" where
  "isValid r \<longleftrightarrow> x1 r \<le> x2 r \<and> y1 r \<le> y2 r"

definition normalized :: "qrect \<Rightarrow> qrect" where
  "normalized r =
     (let (a1, a2) = (if x2 r < x1 r - 1 then (x2 r, x1 r) else (x1 r, x2 r));
          (b1, b2) = (if y2 r < y1 r - 1 then (y2 r, y1 r) else (y1 r, y2 r))
      in \<lparr>x1 = a1, y1 = b1, x2 = a2, y2 = b2\<rparr>)"

section \<open>The fallback overlay: \<open>_AreaOverlay\<close>\<close>

text \<open>
  The overlay's fields \<open>_origin\<close>, \<open>_sel\<close>, \<open>_drag\<close> and \<open>_done\<close>, and the signals it has
  emitted so far, oldest first. Painting, keyboard grabbing and window handling do not
  touch these fields and are left out.
\<close>

datatype select_signal = area_selected qrect | cancelled

datatype mouse_button = LeftButton | RightButton | MiddleButton

datatype key = Key_Escape | Key_Return | Key_Enter | Key_Other

record overlay =
  ov_origin :: qpoint
  ov_sel :: qrect
  ov_drag :: bool
  ov_done :: bool
  ov_signals :: "select_signal list"

definition overlay_init :: overlay where
  "overlay_init =
     \<lparr>ov_origin = QPoint 0 0, ov_sel = QRect_null, ov_drag = False, ov_done = False,
      ov_signals = []\<rparr>"

definition finish :: "bool \<Rightarrow> overlay \<Rightarrow> overlay" where
  "finish ok s =
     (if ov_done s then s
      else s\<lparr>ov_done := True,
             ov_signals := ov_signals s @
               [if ok then area_selected (normalized (ov_sel s)) else cancelled]\<rparr>)"

definition mousePressEvent :: "mouse_button \<Rightarrow> qpoint \<Rightarrow> overlay \<Rightarrow> overlay" where
  "mousePressEvent b pos s =
     (if b = LeftButton
      then s\<lparr>ov_origin := pos, ov_sel := QRect_null, ov_drag := True\<rparr>
      else s)"

definition mouseMoveEvent :: "qpoint \<Rightarrow> overlay \<Rightarrow> overlay" where
  "mouseMoveEvent pos s =
     (if ov_drag s then s\<lparr>ov_sel := normalized (QRect_points (ov_origin s) pos)\<rparr> else s)"

definition mouseReleaseEvent :: "mouse_button \<Rightarrow> qpoint \<Rightarrow> overlay \<Rightarrow> overlay" where
  "mouseReleaseEvent b pos s =
     (if b = LeftButton \<and> ov_drag s
      then (let s' = s\<lparr>ov_drag := False,
                        ov_sel := normalized (QRect_points (ov_origin s) pos)\<rparr>
            in if width (ov_sel s') > 10 \<and> height (ov_sel s') > 10
               then finish True s' else finish False s')
      else s)"

definition keyPressEvent :: "key \<Rightarrow> overlay \<Rightarrow> overlay" where
  "keyPressEvent k s =
     (if k = Key_Escape then finish False s
      else if k = Key_Return \<or> k = Key_Enter
      then (if \<not> isNull (ov_sel s) then finish True s else s)
      else s)"

text \<open>The events a session delivers to the overlay, and a whole session run from a state.\<close>

datatype overlay_event =
    MousePress mouse_button qpoint
  | MouseMove qpoint
  | MouseRelease mouse_button qpoint
  | KeyPress key

fun overlay_handle :: "overlay \<Rightarrow> overlay_event \<Rightarrow> overlay" where
  "overlay_handle s (MousePress b pos) = mousePressEvent b pos s"
| "overlay_handle s (MouseMove pos) = mouseMoveEvent pos s"
| "overlay_handle s (MouseRelease b pos) = mouseReleaseEvent b pos s"
| "overlay_handle s (KeyPress k) = keyPressEvent k s"

definition overlay_run :: "overlay \<Rightarrow> overlay_event list \<Rightarrow> overlay" where
  "overlay_run s evs = foldl overlay_handle s evs"

text \<open>A left-button drag: press at \<open>p\<close>, pointer moves through \<open>ms\<close>, release at \<open>q\<close>.\<close>

definition drag_events :: "qpoint \<Rightarrow> qpoint list \<Rightarrow> qpoint \<Rightarrow> overlay_event list" where
  "drag_events p ms q = MousePress LeftButton p # map MouseMove ms @ [MouseRelease LeftButton q]"


section \<open>Python strings\<close>

text \<open>
  Text is a list of characters with code points 0 to 255. The functions below follow
  Python's \<open>str\<close> methods on that range: \<open>py_isspace\<close> is \<open>str.isspace\<close> of one
  character (tab to carriage return, the separators 0x1c to 0x1f, space, 0x85 and 0xa0),
  \<open>strip\<close> is \<open>str.strip()\<close>, \<open>py_split\<close> is \<open>str.split()\<close> without an argument,
  \<open>splitlines\<close> is \<open>str.splitlines()\<close>, \<open>lower\<close> is \<open>str.lower()\<close>, \<open>contains sub s\<close>
  is \<open>sub in s\<close>, \<open>py_int\<close> is \<open>int(s)\<close> with \<open>None\<close> for \<open>ValueError\<close>, and \<open>str_int\<close>
  is \<open>str(n)\<close> of an integer.
\<close>

definition py_isspace :: "char \<Rightarrow> bool" where
  "py_isspace c \<longleftrightarrow>
     (let n = (of_char c :: nat)
      in (9 \<le> n \<and> n \<le> 13) \<or> (28 \<le> n \<and> n \<le> 32) \<or> n = 133 \<or> n = 160)"

definition strip :: "string \<Rightarrow> string" where
  "strip s = rev (dropWhile py_isspace (rev (dropWhile py_isspace s)))"

fun split_from :: "string \<Rightarrow> string \<Rightarrow> string list" where
  "split_from cur [] = (if cur = [] then [] else [cur])"
| "split_from cur (c # cs) =
     (if py_isspace c
      then (if cur = [] then split_from [] cs else cur # split_from [] cs)
      else split_from (cur @ [c]) cs)"

definition py_split :: "string \<Rightarrow> string list" where
  "py_split s = split_from [] s"

definition is_linebreak :: "char \<Rightarrow> bool" where
  "is_linebreak c \<longleftrightarrow>
     (let n = (of_char c :: nat)
      in (10 \<le> n \<and> n \<le> 13) \<or> (28 \<le> n \<and> n \<le> 30) \<or> n = 133)"

fun lines_from :: "string \<Rightarrow> string \<Rightarrow> string list" where
  "lines_from cur [] = (if cur = [] then [] else [cur])"
| "lines_from cur (c # cs) =
     (if is_linebreak c
      then cur # (case cs of
                    d # ds \<Rightarrow>
                      if c = CHR 0x0D \<and> d = CHR 0x0A then lines_from [] ds
                      else lines_from [] cs
                  | [] \<Rightarrow> lines_from [] cs)
      else lines_from (cur @ [c]) cs)"

definition splitlines :: "string \<Rightarrow> string list" where
  "splitlines s = lines_from [] s"

definition lower_char :: "char \<Rightarrow> char" where
  "lower_char c =
     (let n = (of_char c :: nat)
      in if (65 \<le> n \<and> n \<le> 90) \<or> (192 \<le> n \<and> n \<le> 222 \<and> n \<noteq> 215)
         then char_of (n + 32) else c)"

definition lower :: "string \<Rightarrow> string" where
  "lower s = map lower_char s"

fun starts_with :: "string \<Rightarrow> string \<Rightarrow> bool" where
  "starts_with [] s = True"
| "starts_with (a # as) [] = False"
| "starts_with (a # as) (c # cs) = (a = c \<and> starts_with as cs)"

fun contains :: "string \<Rightarrow> string \<Rightarrow> bool" where
  "contains sub [] = (sub = [])"
| "contains sub (c # cs) = (starts_with sub (c # cs) \<or> contains sub cs)"

definition is_digit :: "char \<Rightarrow> bool" where
  "is_digit c \<longleftrightarrow> (let n = (of_char c :: nat) in 48 \<le> n \<and> n \<le> 57)"

definition digit_val :: "char \<Rightarrow> int" where
  "digit_val c = int (of_char c) - 48"

text \<open>
  \<open>int(s)\<close> in base 10: surrounding whitespace, an optional sign, then decimal digits,
  where a single underscore may stand between two digits.
\<close>

fun digits_from :: "int \<Rightarrow> bool \<Rightarrow> string \<Rightarrow> int option" where
  "digits_from acc after_digit [] = (if after_digit then Some acc else None)"
| "digits_from acc after_digit (c # cs) =
     (if is_digit c then digits_from (10 * acc + digit_val c) True cs
      else if c = CHR ''_'' \<and> after_digit \<and> cs \<noteq> [] then digits_from acc False cs
      else None)"

definition py_int :: "string \<Rightarrow> int option" where
  "py_int s =
     (case strip s of
        [] \<Rightarrow> None
      | c # cs \<Rightarrow>
          if c = CHR ''-'' then map_option uminus (digits_from 0 False cs)
          else if c = CHR ''+'' then digits_from 0 False cs
          else digits_from 0 False (c # cs))"

fun str_nat :: "nat \<Rightarrow> string" where
  "str_nat n =
     (if n < 10 then [char_of (48 + n)] else str_nat (n div 10) @ [char_of (48 + n mod 10)])"

declare str_nat.simps [simp del]

definition str_int :: "int \<Rightarrow> string" where
  "str_int i = (if i < 0 then CHR ''-'' # str_nat (nat (- i)) else str_nat (nat i))"

section \<open>The native pickers: \<open>_select_area_native\<close>, \<open>_SlopThread\<close>, \<open>AreaSelector\<close>\<close>

text \<open>
  What the outside world answers. \<open>subprocess.run\<close> either raises (missing binary,
  timeout) or completes with an exit code and the captured standard output.
\<close>

datatype run_result = Raised | Completed int string

record native_env =
  which_slop :: bool
  slop_result :: run_result
  which_scrot :: bool
  scrot_result :: run_result
  tmp_exists :: bool
  image_size :: "(int \<times> int) option"

text \<open>
  A \<open>try\<close> block either returns from the function or is left, normally or through the
  handler \<open>except Exception: pass\<close>; then the function goes on below it.
\<close>

datatype 'a branch = Returns 'a | Falls_through

text \<open>
  PyQt5 converts the arguments of \<open>QRect(x, y, w, h)\<close> to C \<open>int\<close> and raises
  \<open>OverflowError\<close> for a value outside its range.
\<close>

definition c_int :: "int \<Rightarrow> bool" where
  "c_int v \<longleftrightarrow> - (2 ^ 31) \<le> v \<and> v < 2 ^ 31"

definition slop_branch :: "run_result \<Rightarrow> qrect option branch" where
  "slop_branch r =
     (case r of
        Raised \<Rightarrow> Falls_through
      | Completed returncode stdout \<Rightarrow>
          if returncode = 0
          then (let parts = py_split (strip stdout)
                in if length parts = 4
                   then (case (py_int (parts ! 0), py_int (parts ! 1),
                               py_int (parts ! 2), py_int (parts ! 3)) of
                           (Some x, Some y, Some w, Some h) \<Rightarrow>
                             if w > 4 \<and> h > 4
                             then (if c_int x \<and> c_int y \<and> c_int w \<and> c_int h
                                   then Returns (Some (QRect_xywh x y w h))
                                   else Falls_through)
                             else Returns None
                         | _ \<Rightarrow> Falls_through)
                   else Returns None)
          else Returns None)"

text \<open>
  The \<open>scrot --select\<close> branch. \<open>image_size\<close> is \<open>None\<close> when opening the saved image or
  removing it raises.
\<close>

definition scrot_branch :: "native_env \<Rightarrow> qrect option branch" where
  "scrot_branch env =
     (case scrot_result env of
        Raised \<Rightarrow> Falls_through
      | Completed returncode stdout \<Rightarrow>
          if returncode = 0 \<and> tmp_exists env
          then (case image_size env of
                  None \<Rightarrow> Falls_through
                | Some (w, h) \<Rightarrow>
                    if w > 4 \<and> h > 4 then Returns (Some (QRect_xywh 0 0 w h))
                    else Returns None)
          else Returns None)"

definition select_area_native :: "native_env \<Rightarrow> qrect option" where
  "select_area_native env =
     (case (if which_slop env then slop_branch (slop_result env) else Falls_through) of
        Returns r \<Rightarrow> r
      | Falls_through \<Rightarrow>
          (case (if which_scrot env then scrot_branch env else Falls_through) of
             Returns r \<Rightarrow> r
           | Falls_through \<Rightarrow> None))"

text \<open>\<open>_SlopThread.run\<close> emits \<open>rect if rect else QRect()\<close>.\<close>

definition slop_thread_run :: "native_env \<Rightarrow> qrect" where
  "slop_thread_run env =
     (case select_area_native env of
        None \<Rightarrow> QRect_null
      | Some rect \<Rightarrow> if isValid rect then rect else QRect_null)"

definition on_native_done :: "qrect \<Rightarrow> select_signal" where
  "on_native_done rect =
     (if isNull rect \<or> width rect < 4 \<or> height rect < 4 then cancelled
      else area_selected rect)"

text \<open>
  \<open>AreaSelector.start\<close>: the native path runs to its signal; the overlay path opens the
  overlay, which then waits for events.
\<close>

datatype picker = NativeActive select_signal | OverlayActive overlay

definition start :: "native_env \<Rightarrow> picker" where
  "start env =
     (if which_slop env \<or> which_scrot env
      then NativeActive (on_native_done (slop_thread_run env))
      else OverlayActive overlay_init)"

section \<open>The audio source: \<open>detect_audio_source\<close>\<close>

text \<open>
  The answers of the five probes, in the order the function runs them. \<open>pactl\<close> is run
  once in the PipeWire step and once more in the PulseAudio step; the two runs are
  separate answers.
\<close>

record audio_env =
  pw_cli :: run_result
  pactl_pipewire :: run_result
  pactl_pulse :: run_result
  pulseaudio_check :: run_result
  arecord :: run_result

text \<open>The \<open>for line in lines\<close> loop: the name returned from inside the loop, if any.\<close>

fun first_source :: "string list \<Rightarrow> string option" where
  "first_source [] = None"
| "first_source (line # rest) =
     (if \<not> contains ''monitor'' (lower line)
      then (let parts = py_split line
            in if 2 \<le> length parts then Some (parts ! 1) else first_source rest)
      else first_source rest)"

text \<open>
  The statements guarded by \<open>returncode == 0 and stdout.strip()\<close>, the same in both
  steps, together with the \<open>return ("pulse", "default")\<close> that follows them. \<open>lines[0]\<close>
  of an empty list raises, which the handler swallows.
\<close>

definition sources_step :: "string \<Rightarrow> (string \<times> string) branch" where
  "sources_step stdout =
     (let lines = splitlines (strip stdout)
      in case first_source lines of
           Some src \<Rightarrow> Returns (''pulse'', src)
         | None \<Rightarrow>
             (case lines of
                [] \<Rightarrow> Falls_through
              | l # _ \<Rightarrow>
                  (let parts = py_split l
                   in if 2 \<le> length parts then Returns (''pulse'', parts ! 1)
                      else Returns (''pulse'', ''default''))))"

definition answers :: "run_result \<Rightarrow> bool" where
  "answers r = (case r of Raised \<Rightarrow> False | Completed rc out \<Rightarrow> rc = 0 \<and> strip out \<noteq> [])"

definition stdout_of :: "run_result \<Rightarrow> string" where
  "stdout_of r = (case r of Raised \<Rightarrow> [] | Completed rc out \<Rightarrow> out)"

definition pipewire_step :: "audio_env \<Rightarrow> (string \<times> string) branch" where
  "pipewire_step env =
     (if answers (pw_cli env)
      then (case pactl_pipewire env of
              Raised \<Rightarrow> Falls_through
            | Completed rc out \<Rightarrow>
                if rc = 0 \<and> strip out \<noteq> [] then sources_step out
                else Returns (''pulse'', ''default''))
      else Falls_through)"

definition pulse_step :: "audio_env \<Rightarrow> (string \<times> string) branch" where
  "pulse_step env =
     (if answers (pactl_pulse env) then sources_step (stdout_of (pactl_pulse env))
      else Falls_through)"

definition check_step :: "audio_env \<Rightarrow> (string \<times> string) branch" where
  "check_step env =
     (case pulseaudio_check env of
        Raised \<Rightarrow> Falls_through
      | Completed rc out \<Rightarrow> if rc = 0 then Returns (''pulse'', ''default'') else Falls_through)"

definition alsa_step :: "audio_env \<Rightarrow> (string \<times> string) branch" where
  "alsa_step env =
     (case arecord env of
        Raised \<Rightarrow> Falls_through
      | Completed rc out \<Rightarrow>
          if rc = 0 \<and> contains ''card'' out then Returns (''alsa'', ''hw:0,0'')
          else Falls_through)"

definition or_else :: "'a branch \<Rightarrow> 'a branch \<Rightarrow> 'a branch" where
  "or_else a b = (case a of Returns v \<Rightarrow> Returns v | Falls_through \<Rightarrow> b)"

definition detect_audio_source :: "audio_env \<Rightarrow> string \<times> string" where
  "detect_audio_source env =
     (case or_else (pipewire_step env)
             (or_else (pulse_step env) (or_else (check_step env) (alsa_step env))) of
        Returns v \<Rightarrow> v
      | Falls_through \<Rightarrow> (''pulse'', ''default''))"

section \<open>The recorder: \<open>RecorderThread\<close>\<close>

text \<open>
  The configuration dictionary. A field is \<open>None\<close> when the key is absent, so that
  \<open>cfg.get(key, default)\<close> is \<open>dict_get field default\<close>; \<open>cfg_area\<close> is also \<open>None\<close>
  when the key holds Python's \<open>None\<close>.
\<close>

record cfg =
  cfg_area :: "qrect option"
  cfg_fps :: "int option"
  cfg_quality :: "int option"
  cfg_audio :: "bool option"
  cfg_webcam :: "bool option"
  cfg_output :: "string option"
  cfg_webcam_size :: "string option"
  cfg_webcam_pos :: "string option"

definition dict_get :: "'a option \<Rightarrow> 'a \<Rightarrow> 'a" where
  "dict_get v d = (case v of None \<Rightarrow> d | Some a \<Rightarrow> a)"

definition QUALITY :: "(int \<times> int \<times> string) list" where
  "QUALITY =
     [(0, (45, ''ultrafast'')),
      (1, (28, ''fast'')),
      (2, (18, ''medium'')),
      (3, (12, ''slow'')),
      (4, (0, ''veryslow''))]"

text \<open>\<open>os.path.splitext\<close> of a POSIX path; \<open>rfind\<close> is \<open>str.rfind\<close> of one character.\<close>

fun rfind_from :: "nat \<Rightarrow> char \<Rightarrow> string \<Rightarrow> int \<Rightarrow> int" where
  "rfind_from i c [] found = found"
| "rfind_from i c (d # ds) found = rfind_from (Suc i) c ds (if d = c then int i else found)"

definition rfind :: "char \<Rightarrow> string \<Rightarrow> int" where
  "rfind c s = rfind_from 0 c s (- 1)"

definition splitext :: "string \<Rightarrow> string \<times> string" where
  "splitext p =
     (let sepIndex = rfind CHR ''/'' p;
          dotIndex = rfind CHR ''.'' p
      in if dotIndex > sepIndex \<and>
            list_ex (\<lambda>c. c \<noteq> CHR ''.'')
              (take (nat (dotIndex - (sepIndex + 1))) (drop (nat (sepIndex + 1)) p))
         then (take (nat dotIndex) p, drop (nat dotIndex) p)
         else (p, []))"

text \<open>What \<open>run\<close> reads from the outside world before and while it spawns the encoder.\<close>

datatype popen_result = Spawned | FileNotFound | OtherError string

record rec_env =
  screen :: qrect
  display_var :: "string option"
  audio_probes :: audio_env
  video0_exists :: bool
  popen :: popen_result

text \<open>The capture geometry \<open>(x, y, w, h)\<close>; \<open>n & ~1\<close> is \<open>n AND NOT 1\<close>.\<close>

definition effective_geometry :: "qrect option \<Rightarrow> qrect \<Rightarrow> int \<times> int \<times> int \<times> int" where
  "effective_geometry area scr =
     (case area of
        Some a \<Rightarrow>
          if isValid a \<and> \<not> isNull a
          then (rect_x a, rect_y a, width a AND NOT 1, height a AND NOT 1)
          else (0, 0, width scr AND NOT 1, height scr AND NOT 1)
      | None \<Rightarrow> (0, 0, width scr AND NOT 1, height scr AND NOT 1))"

definition sz_map :: "(string \<times> string) list" where
  "sz_map = [(''small'', ''240:180''), (''medium'', ''320:240''), (''large'', ''480:360'')]"

definition pos_map :: "(string \<times> string) list" where
  "pos_map =
     [(''bottom-right'', ''W-w-12:H-h-12''),
      (''bottom-left'', ''12:H-h-12''),
      (''top-right'', ''W-w-12:12''),
      (''top-left'', ''12:12'')]"

text \<open>
  The argument vector is built in the four parts the source marks with comments: the
  screen input, the optional audio and webcam inputs, the filters, and the codec
  settings. \<open>audio_idx\<close> and \<open>webcam_idx\<close> are \<open>None\<close> as in the source.
\<close>

definition screen_input :: "int \<Rightarrow> int \<Rightarrow> int \<Rightarrow> string \<Rightarrow> int \<Rightarrow> int \<Rightarrow> string list" where
  "screen_input fps w h display x y =
     [''ffmpeg'', ''-y'',
      ''-f'', ''x11grab'',
      ''-r'', str_int fps,
      ''-s'', str_int w @ ''x'' @ str_int h,
      ''-i'', display @ ''+'' @ str_int x @ '','' @ str_int y]"

definition audio_input :: "bool \<Rightarrow> audio_env \<Rightarrow> string list \<times> int option" where
  "audio_input audio probes =
     (if audio
      then (let (driver, src) = detect_audio_source probes
            in (if driver = ''pulse'' then [''-f'', ''pulse'', ''-i'', src]
                else [''-f'', ''alsa'', ''-i'', src],
                Some 1))
      else ([], None))"

definition webcam_input :: "bool \<Rightarrow> bool \<Rightarrow> int option \<Rightarrow> string list \<times> int option" where
  "webcam_input webcam video0 audio_idx =
     (if webcam \<and> video0
      then ([''-f'', ''v4l2'', ''-i'', ''/dev/video0''],
            Some (case audio_idx of Some a \<Rightarrow> a + 1 | None \<Rightarrow> 1))
      else ([], None))"

definition filters :: "cfg \<Rightarrow> int option \<Rightarrow> int option \<Rightarrow> int \<Rightarrow> int \<Rightarrow> string list" where
  "filters c webcam_idx audio_idx w h =
     (case webcam_idx of
        Some wi \<Rightarrow>
          (let sz = dict_get (map_of sz_map (dict_get (cfg_webcam_size c) ''small''))
                      ''240:180'';
               overlay = dict_get
                           (map_of pos_map (dict_get (cfg_webcam_pos c) ''bottom-right''))
                           ''W-w-12:H-h-12'';
               fc = ''['' @ str_int wi @ '':v]scale='' @ sz @ '',format=yuv420p[cam];'' @
                    ''[0:v][cam]overlay='' @ overlay @ ''[out]''
           in [''-filter_complex'', fc, ''-map'', ''[out]''] @
              (case audio_idx of Some a \<Rightarrow> [''-map'', str_int a @ '':a''] | None \<Rightarrow> []))
      | None \<Rightarrow> [''-vf'', ''scale='' @ str_int w @ '':'' @ str_int h])"

definition codec :: "int \<Rightarrow> string \<Rightarrow> int option \<Rightarrow> string list" where
  "codec crf preset audio_idx =
     [''-c:v'', ''libx264'',
      ''-crf'', str_int crf,
      ''-preset'', preset,
      ''-pix_fmt'', ''yuv420p'',
      ''-movflags'', ''+faststart''] @
     (if audio_idx \<noteq> None
      then [''-c:a'', ''aac'', ''-b:a'', ''192k'', ''-ac'', ''2'', ''-ar'', ''44100'']
      else [])"

text \<open>
  \<open>run\<close> up to the point where it spawns the encoder: either the message of the error it
  reports before returning, or the argument vector and the final output path.
\<close>

definition prepare :: "cfg \<Rightarrow> rec_env \<Rightarrow> string + (string list \<times> string)" where
  "prepare c env =
     (let area = cfg_area c;
          fps = dict_get (cfg_fps c) 30;
          qi = dict_get (cfg_quality c) 2;
          audio = dict_get (cfg_audio c) False;
          webcam = dict_get (cfg_webcam c) False;
          out = dict_get (cfg_output c) ''/tmp/komocap_rec.mp4'';
          (crf, preset) = dict_get (map_of QUALITY qi) (18, ''medium'');
          (x, y, w, h) = effective_geometry area (screen env)
      in if w < 2 \<or> h < 2 then Inl ''Selected area is too small.''
         else
           (let display = dict_get (display_var env) '':0'';
                ext = (if qi = 4 then ''.mkv'' else ''.mp4'');
                final = fst (splitext out) @ ext;
                (audio_args, audio_idx) = audio_input audio (audio_probes env);
                (webcam_args, webcam_idx) = webcam_input webcam (video0_exists env) audio_idx
            in Inr (screen_input fps w h display x y @ audio_args @ webcam_args @
                    filters c webcam_idx audio_idx w h @
                    codec crf preset audio_idx @ [final],
                    final)))"

text \<open>
  The recorder object: its configuration, the encoder process (\<open>_proc\<close>), the
  cancellation flag (\<open>_stop\<close>), the signals emitted so far, and where \<open>run\<close> is: not yet
  called, blocked in \<open>self._proc.wait()\<close> (with the final path it holds), or returned.
  Of the process, the model keeps the argument vector, the exit code (\<open>None\<close> while it
  runs, as \<open>poll()\<close> reports), what was written to its standard input, and how many
  times \<open>terminate()\<close> was called on it.
\<close>

datatype rec_signal = sig_status string | sig_done string | sig_error string

record process =
  argv :: "string list"
  returncode :: "int option"
  stdin_written :: "string list"
  terminate_calls :: nat

datatype run_pc = NotStarted | Waiting string | Returned

record recorder =
  rec_cfg :: cfg
  proc :: "process option"
  stop_flag :: bool
  pc :: run_pc
  rec_signals :: "rec_signal list"

definition recorder_init :: "cfg \<Rightarrow> recorder" where
  "recorder_init c =
     \<lparr>rec_cfg = c, proc = None, stop_flag = False, pc = NotStarted, rec_signals = []\<rparr>"

definition emit :: "rec_signal \<Rightarrow> recorder \<Rightarrow> recorder" where
  "emit sg r = r\<lparr>rec_signals := rec_signals r @ [sg]\<rparr>"

text \<open>\<open>run\<close> from its start to \<open>self._proc.wait()\<close>, or to its return if it never spawns.\<close>

definition run_start :: "rec_env \<Rightarrow> recorder \<Rightarrow> recorder" where
  "run_start env r =
     (case prepare (rec_cfg r) env of
        Inl msg \<Rightarrow> (emit (sig_error msg) r)\<lparr>pc := Returned\<rparr>
      | Inr (cmd, final) \<Rightarrow>
          (case popen env of
             Spawned \<Rightarrow>
               (emit (sig_status ''RECORDING'')
                  (r\<lparr>proc := Some \<lparr>argv = cmd, returncode = None, stdin_written = [],
                                    terminate_calls = 0\<rparr>\<rparr>))\<lparr>pc := Waiting final\<rparr>
           | FileNotFound \<Rightarrow>
               (emit (sig_error (''ffmpeg not found.'' @ [CHR 0x0A] @
                                 ''  sudo apt install ffmpeg'')) r)\<lparr>pc := Returned\<rparr>
           | OtherError e \<Rightarrow> (emit (sig_error (''Error: '' @ e)) r)\<lparr>pc := Returned\<rparr>))"

text \<open>
  \<open>run\<close> after \<open>self._proc.wait()\<close> has returned, which needs the process to have exited.
  \<open>stderr_read\<close> is what the pipe holds (\<open>None\<close> when reading raises), \<open>decode\<close> is
  \<open>bytes.decode(errors="replace")\<close>, \<open>final_exists\<close> is \<open>os.path.exists(final)\<close>.
\<close>

record finish_env =
  stderr_read :: "string option"
  decode :: "string \<Rightarrow> string"
  final_exists :: bool

definition failure_message :: "finish_env \<Rightarrow> int \<Rightarrow> string" where
  "failure_message fe rc =
     (let stderr_bytes = (case stderr_read fe of None \<Rightarrow> [] | Some b \<Rightarrow> take 3000 b);
          text = decode fe stderr_bytes
      in ''Recording failed (exit '' @ str_int rc @ '').'' @ [CHR 0x0A] @
         drop (length text - 600) text)"

definition run_finish :: "finish_env \<Rightarrow> recorder \<Rightarrow> recorder" where
  "run_finish fe r =
     (case pc r of
        Waiting final \<Rightarrow>
          (case proc r of
             Some p \<Rightarrow>
               (case returncode p of
                  Some rc \<Rightarrow>
                    (if stop_flag r \<or> final_exists fe
                     then (emit (sig_done final) r)\<lparr>pc := Returned\<rparr>
                     else (emit (sig_error (failure_message fe rc)) r)\<lparr>pc := Returned\<rparr>)
                | None \<Rightarrow> r)
           | None \<Rightarrow> r)
      | _ \<Rightarrow> r)"

text \<open>
  \<open>stop\<close>. \<open>stdin_ok\<close> tells whether writing and flushing the quit command succeeds (an
  exception there is swallowed); \<open>wait_result\<close> is the exit code when the process exits
  within the 5 seconds of \<open>wait(timeout=5)\<close>, and \<open>None\<close> when the wait times out.
\<close>

record stop_env =
  stdin_ok :: bool
  wait_result :: "int option"

definition stop :: "stop_env \<Rightarrow> recorder \<Rightarrow> recorder" where
  "stop e r =
     (let r1 = r\<lparr>stop_flag := True\<rparr>
      in case proc r1 of
           None \<Rightarrow> r1
         | Some p \<Rightarrow>
             (case returncode p of
                Some rc \<Rightarrow> r1
              | None \<Rightarrow>
                  (let p1 = (if stdin_ok e
                             then p\<lparr>stdin_written := stdin_written p @ [''q'' @ [CHR 0x0A]]\<rparr>
                             else p)
                   in case wait_result e of
                        Some rc \<Rightarrow> r1\<lparr>proc := Some (p1\<lparr>returncode := Some rc\<rparr>)\<rparr>
                      | None \<Rightarrow>
                          r1\<lparr>proc := Some (p1\<lparr>terminate_calls :=
                                                  Suc (terminate_calls p1)\<rparr>)\<rparr>)))"

text \<open>
  A recording session is a sequence of events: the worker thread starts \<open>run\<close>, the
  encoder process exits by itself, \<open>run\<close> wakes up from its wait, or the interface
  thread calls \<open>stop\<close>. An event that cannot happen in a state leaves it unchanged.
\<close>

datatype rec_event = RunStart rec_env | ProcExit int | RunFinish finish_env | Stop stop_env

definition proc_exit :: "int \<Rightarrow> recorder \<Rightarrow> recorder" where
  "proc_exit rc r =
     (case proc r of
        Some p \<Rightarrow> if returncode p = None then r\<lparr>proc := Some (p\<lparr>returncode := Some rc\<rparr>)\<rparr> else r
      | None \<Rightarrow> r)"

fun rec_step :: "recorder \<Rightarrow> rec_event \<Rightarrow> recorder" where
  "rec_step r (RunStart env) = (if pc r = NotStarted then run_start env r else r)"
| "rec_step r (ProcExit rc) = proc_exit rc r"
| "rec_step r (RunFinish fe) = run_finish fe r"
| "rec_step r (Stop e) = stop e r"

definition rec_run :: "recorder \<Rightarrow> rec_event list \<Rightarrow> recorder" where
  "rec_run r evs = foldl rec_step r evs"

text \<open>
  An event after which the encoder process is still running: anything but its exit, and
  of the \<open>stop\<close> calls those whose wait times out.
\<close>

definition child_keeps_running :: "rec_event \<Rightarrow> bool" where
  "child_keeps_running ev =
     (case ev of
        RunStart env \<Rightarrow> True
      | ProcExit rc \<Rightarrow> False
      | RunFinish fe \<Rightarrow> True
      | Stop se \<Rightarrow> wait_result se = None)"

definition terminal :: "rec_signal \<Rightarrow> bool" where
  "terminal sg = (case sg of sig_status m \<Rightarrow> False | sig_done p \<Rightarrow> True | sig_error m \<Rightarrow> True)"

section \<open>Invariants and example inputs\<close>

text \<open>
  What every reachable overlay state satisfies: the stored selection is already normalized,
  and no signal has been emitted while the session is not done.
\<close>

definition overlay_inv :: "overlay \<Rightarrow> bool" where
  "overlay_inv s \<longleftrightarrow> normalized (ov_sel s) = ov_sel s \<and> (ov_done s \<or> ov_signals s = [])"

text \<open>
  What every reachable recorder state satisfies: one terminal signal (\<open>sig_done\<close> or
  \<open>sig_error\<close>) has been emitted exactly when \<open>run\<close> has returned, and none before; the
  process exists while \<open>run\<close> waits for it, and its last argument is the final path.
\<close>

definition terminal_count :: "recorder \<Rightarrow> nat" where
  "terminal_count r = length (filter terminal (rec_signals r))"

definition rec_inv :: "recorder \<Rightarrow> bool" where
  "rec_inv r \<longleftrightarrow>
     terminal_count r = (if pc r = Returned then 1 else 0) \<and>
     (case pc r of
        NotStarted \<Rightarrow> proc r = None \<and> rec_signals r = []
      | Waiting final \<Rightarrow>
          (case proc r of None \<Rightarrow> False | Some p \<Rightarrow> argv p \<noteq> [] \<and> last (argv p) = final) \<and>
          rec_signals r = [sig_status ''RECORDING'']
      | Returned \<Rightarrow> True)"

text \<open>A line of the source list that does not name a monitor, as the loop tests it.\<close>

definition non_monitor :: "string \<Rightarrow> bool" where
  "non_monitor line \<longleftrightarrow> \<not> contains ''monitor'' (lower line)"

text \<open>
  An example session: full screen on a 1920x1080 display, 30 frames per second, quality
  tier 2, no audio, no webcam; no audio server answers; the encoder spawns.
\<close>

definition example_cfg :: cfg where
  "example_cfg =
     \<lparr>cfg_area = None, cfg_fps = Some 30, cfg_quality = Some 2, cfg_audio = Some False,
      cfg_webcam = Some False, cfg_output = Some ''/home/u/KomoCap/Recordings/rec.mp4'',
      cfg_webcam_size = Some ''small'', cfg_webcam_pos = Some ''bottom-right''\<rparr>"

definition silent_probes :: audio_env where
  "silent_probes =
     \<lparr>pw_cli = Raised, pactl_pipewire = Raised, pactl_pulse = Raised,
      pulseaudio_check = Raised, arecord = Raised\<rparr>"

definition example_env :: rec_env where
  "example_env =
     \<lparr>screen = QRect_xywh 0 0 1920 1080, display_var = Some '':0'',
      audio_probes = silent_probes, video0_exists = False, popen = Spawned\<rparr>"

definition example_cmd :: "string list" where
  "example_cmd =
     [''ffmpeg'', ''-y'', ''-f'', ''x11grab'', ''-r'', ''30'', ''-s'', ''1920x1080'',
      ''-i'', '':0+0,0'', ''-vf'', ''scale=1920:1080'', ''-c:v'', ''libx264'',
      ''-crf'', ''18'', ''-preset'', ''medium'', ''-pix_fmt'', ''yuv420p'',
      ''-movflags'', ''+faststart'', ''/home/u/KomoCap/Recordings/rec.mp4'']"

text \<open>
  The answer of \<open>pactl list short sources\<close> with a monitor source listed before a
  microphone; fields are separated by tabs, lines end with a line feed.
\<close>

definition monitor_line :: string where
  "monitor_line = ''0'' @ [CHR 0x09] @ ''alsa_output.monitor'' @ [CHR 0x09] @ ''PipeWire''"

definition usb_line :: string where
  "usb_line = ''1'' @ [CHR 0x09] @ ''alsa_input.usb'' @ [CHR 0x09] @ ''PipeWire''"

definition example_sources :: string where
  "example_sources = monitor_line @ [CHR 0x0A] @ usb_line @ [CHR 0x0A]"

section \<open>Properties of the overlay\<close>

lemmas char_eval = char_of_def bit_Suc_0_iff

lemmas qrect_defs = QPoint_def QRect_null_def QRect_points_def QRect_xywh_def rect_x_def
  rect_y_def width_def height_def isNull_def isValid_def normalized_def

lemma normalized_idem: "normalized (normalized r) = normalized r"
  by (simp add: normalized_def Let_def)

lemma width_normalized_points:
  "width (normalized (QRect_points p q)) =
     (if xp p - 1 \<le> xp q then xp q - xp p + 1 else xp p - xp q + 1)"
  by (simp add: qrect_defs Let_def)

lemma height_normalized_points:
  "height (normalized (QRect_points p q)) =
     (if yp p - 1 \<le> yp q then yp q - yp p + 1 else yp p - yp q + 1)"
  by (simp add: qrect_defs Let_def)

lemma overlay_inv_init: "overlay_inv overlay_init"
  by (simp add: overlay_inv_def overlay_init_def qrect_defs)

lemma overlay_inv_finish: "overlay_inv s \<Longrightarrow> overlay_inv (finish ok s)"
  by (simp add: overlay_inv_def finish_def)

lemma overlay_inv_handle: "overlay_inv s \<Longrightarrow> overlay_inv (overlay_handle s e)"
proof (cases e)
  case (MousePress b pos)
  assume "overlay_inv s"
  then show ?thesis using MousePress
    by (simp add: mousePressEvent_def overlay_inv_def QRect_null_def normalized_def)
next
  case (MouseMove pos)
  assume "overlay_inv s"
  then show ?thesis using MouseMove
    by (simp add: mouseMoveEvent_def overlay_inv_def normalized_idem)
next
  case (MouseRelease b pos)
  assume a: "overlay_inv s"
  have "overlay_inv (s\<lparr>ov_drag := False, ov_sel := normalized (QRect_points (ov_origin s) pos)\<rparr>)"
    using a by (simp add: overlay_inv_def normalized_idem)
  then show ?thesis using MouseRelease a
    by (simp add: mouseReleaseEvent_def Let_def overlay_inv_finish)
next
  case (KeyPress k)
  assume "overlay_inv s"
  then show ?thesis using KeyPress
    by (simp add: keyPressEvent_def overlay_inv_finish)
qed

lemma overlay_inv_run: "overlay_inv s \<Longrightarrow> overlay_inv (overlay_run s evs)"
  unfolding overlay_run_def
  by (induction evs arbitrary: s) (simp_all add: overlay_inv_handle)

lemma overlay_reachable_inv: "overlay_inv (overlay_run overlay_init evs)"
  by (rule overlay_inv_run [OF overlay_inv_init])

text \<open>Pointer moves change nothing but the live selection.\<close>

lemma moves_fields:
  "ov_origin (foldl overlay_handle s (map MouseMove ms)) = ov_origin s"
  "ov_drag (foldl overlay_handle s (map MouseMove ms)) = ov_drag s"
  "ov_done (foldl overlay_handle s (map MouseMove ms)) = ov_done s"
  "ov_signals (foldl overlay_handle s (map MouseMove ms)) = ov_signals s"
  by (induction ms arbitrary: s) (simp_all add: mouseMoveEvent_def)

lemma drag_signals:
  assumes "\<not> ov_done s"
  shows "ov_signals (overlay_run s (drag_events p ms q)) =
           ov_signals s @
             [if width (normalized (QRect_points p q)) > 10 \<and>
                 height (normalized (QRect_points p q)) > 10
              then area_selected (normalized (QRect_points p q)) else cancelled]"
proof -
  let ?s1 = "mousePressEvent LeftButton p s"
  let ?s2 = "foldl overlay_handle ?s1 (map MouseMove ms)"
  have run: "overlay_run s (drag_events p ms q) = mouseReleaseEvent LeftButton q ?s2"
    by (simp add: overlay_run_def drag_events_def)
  have f: "ov_origin ?s2 = p" "ov_drag ?s2" "\<not> ov_done ?s2" "ov_signals ?s2 = ov_signals s"
    using assms by (simp_all add: moves_fields mousePressEvent_def)
  show ?thesis unfolding run
    using f by (simp add: mouseReleaseEvent_def Let_def finish_def normalized_idem)
qed

text \<open>
  Claim C1, as the code has it. In a session that is not yet resolved, a left-button drag
  from (100,100) to (105,103) resolves it to \<open>cancelled\<close>; a drag from (100,100) to
  (300,250) resolves it to \<open>area_selected\<close> with the rectangle at (100,100) of width 201
  and height 151, because \<open>QRect(topLeft, bottomRight)\<close> contains both corner pixels;
  and every drag whose normalized rectangle has width or height at most 10 resolves the
  session to \<open>cancelled\<close>. In each case exactly one signal is emitted.
\<close>

theorem overlay_release_outcome:
  assumes "s = overlay_run overlay_init evs" and "\<not> ov_done s"
  shows "ov_signals (overlay_run s (drag_events (QPoint 100 100) ms (QPoint 105 103))) =
           [cancelled] \<and>
         ov_signals (overlay_run s (drag_events (QPoint 100 100) ms (QPoint 300 250))) =
           [area_selected (QRect_xywh 100 100 201 151)] \<and>
         (width (normalized (QRect_points p q)) \<le> 10 \<or>
          height (normalized (QRect_points p q)) \<le> 10 \<longrightarrow>
            ov_signals (overlay_run s (drag_events p ms q)) = [cancelled])"
proof -
  have "overlay_inv s"
    using assms(1) overlay_reachable_inv by simp
  then have e: "ov_signals s = []"
    using assms(2) by (simp add: overlay_inv_def)
  have a: "ov_signals (overlay_run s (drag_events (QPoint 100 100) ms (QPoint 105 103))) =
             [cancelled]"
    by (simp add: drag_signals [OF assms(2)] e qrect_defs)
  have b: "ov_signals (overlay_run s (drag_events (QPoint 100 100) ms (QPoint 300 250))) =
             [area_selected (QRect_xywh 100 100 201 151)]"
    by (simp add: drag_signals [OF assms(2)] e qrect_defs)
  have c: "ov_signals (overlay_run s (drag_events p ms q)) = [cancelled]"
    if "width (normalized (QRect_points p q)) \<le> 10 \<or>
        height (normalized (QRect_points p q)) \<le> 10"
    using that by (auto simp add: drag_signals [OF assms(2)] e)
  from a b c show ?thesis by blast
qed

theorem overlay_release_outcome_witness:
  "\<not> ov_done (overlay_run overlay_init [MousePress RightButton (QPoint 7 7)]) \<and>
   ov_signals (overlay_run (overlay_run overlay_init [MousePress RightButton (QPoint 7 7)])
     (drag_events (QPoint 100 100) [QPoint 101 102] (QPoint 105 103))) = [cancelled] \<and>
   ov_signals (overlay_run (overlay_run overlay_init [MousePress RightButton (QPoint 7 7)])
     (drag_events (QPoint 100 100) [QPoint 101 102] (QPoint 300 250))) =
       [area_selected (QRect_xywh 100 100 201 151)] \<and>
   height (normalized (QRect_points (QPoint 400 300) (QPoint 20 305))) \<le> 10 \<and>
   ov_signals (overlay_run (overlay_run overlay_init [MousePress RightButton (QPoint 7 7)])
     (drag_events (QPoint 400 300) [QPoint 101 102] (QPoint 20 305))) = [cancelled]"
proof -
  have nd: "\<not> ov_done (overlay_run overlay_init [MousePress RightButton (QPoint 7 7)])"
    by (simp add: overlay_run_def overlay_init_def mousePressEvent_def)
  have h: "height (normalized (QRect_points (QPoint 400 300) (QPoint 20 305))) \<le> 10"
    by (simp add: qrect_defs)
  show ?thesis
    using nd h
      overlay_release_outcome [OF refl nd, where ms = "[QPoint 101 102]" and p = "QPoint 400 300" and q = "QPoint 20 305"]
    by simp
qed

text \<open>
  The drag from (100,100) to (300,250) does not resolve to the rectangle of width 200 and
  height 150.
\<close>

theorem overlay_release_counterexample:
  "ov_signals (overlay_run overlay_init (drag_events (QPoint 100 100) [] (QPoint 300 250))) \<noteq>
     [area_selected (QRect_xywh 100 100 200 150)]"
  by (simp add: overlay_run_def drag_events_def overlay_init_def mousePressEvent_def
      mouseReleaseEvent_def finish_def Let_def qrect_defs)

text \<open>
  Claim C10. In a session that is not yet resolved, Return or Enter with a non-null current
  selection resolves the session to \<open>area_selected\<close> with exactly that selection, whatever
  its size: pressing at (100,100), moving to (105,103) and pressing Enter resolves to the
  rectangle of width 6 and height 4, while releasing the button at the same point resolves
  to \<open>cancelled\<close>.
\<close>

theorem enter_confirms_any_selection:
  assumes "s = overlay_run overlay_init evs" and "\<not> ov_done s" and "\<not> isNull (ov_sel s)"
    and "k = Key_Return \<or> k = Key_Enter"
  shows "ov_signals (keyPressEvent k s) = [area_selected (ov_sel s)] \<and>
         ov_signals (overlay_run overlay_init
           [MousePress LeftButton (QPoint 100 100), MouseMove (QPoint 105 103), KeyPress k]) =
           [area_selected (QRect_xywh 100 100 6 4)] \<and>
         ov_signals (overlay_run overlay_init
           [MousePress LeftButton (QPoint 100 100), MouseMove (QPoint 105 103),
            MouseRelease LeftButton (QPoint 105 103)]) = [cancelled]"
proof -
  have inv: "overlay_inv s"
    using assms(1) overlay_reachable_inv by simp
  then have "ov_signals s = []" and "normalized (ov_sel s) = ov_sel s"
    using assms(2) by (simp_all add: overlay_inv_def)
  then have a: "ov_signals (keyPressEvent k s) = [area_selected (ov_sel s)]"
    using assms(2,3,4) by (auto simp add: keyPressEvent_def finish_def)
  have b: "ov_signals (overlay_run overlay_init
           [MousePress LeftButton (QPoint 100 100), MouseMove (QPoint 105 103), KeyPress k]) =
           [area_selected (QRect_xywh 100 100 6 4)]"
    using assms(4)
    by (auto simp add: overlay_run_def overlay_init_def mousePressEvent_def mouseMoveEvent_def
        keyPressEvent_def finish_def Let_def qrect_defs)
  have c: "ov_signals (overlay_run overlay_init
           [MousePress LeftButton (QPoint 100 100), MouseMove (QPoint 105 103),
            MouseRelease LeftButton (QPoint 105 103)]) = [cancelled]"
    by (simp add: overlay_run_def overlay_init_def mousePressEvent_def mouseMoveEvent_def
        mouseReleaseEvent_def finish_def Let_def qrect_defs)
  from a b c show ?thesis by blast
qed

theorem enter_confirms_any_selection_witness:
  "\<not> ov_done (overlay_run overlay_init
       [MousePress LeftButton (QPoint 100 100), MouseMove (QPoint 105 103)]) \<and>
   \<not> isNull (ov_sel (overlay_run overlay_init
       [MousePress LeftButton (QPoint 100 100), MouseMove (QPoint 105 103)])) \<and>
   width (ov_sel (overlay_run overlay_init
       [MousePress LeftButton (QPoint 100 100), MouseMove (QPoint 105 103)])) \<le> 10 \<and>
   ov_signals (keyPressEvent Key_Enter (overlay_run overlay_init
       [MousePress LeftButton (QPoint 100 100), MouseMove (QPoint 105 103)])) =
     [area_selected (QRect_xywh 100 100 6 4)]"
proof -
  let ?s = "overlay_run overlay_init
       [MousePress LeftButton (QPoint 100 100), MouseMove (QPoint 105 103)]"
  have sel: "ov_sel ?s = QRect_xywh 100 100 6 4"
    by (simp add: overlay_run_def overlay_init_def mousePressEvent_def mouseMoveEvent_def
        Let_def qrect_defs)
  have nd: "\<not> ov_done ?s"
    by (simp add: overlay_run_def overlay_init_def mousePressEvent_def mouseMoveEvent_def)
  have nn: "\<not> isNull (ov_sel ?s)"
    by (simp add: sel) (simp add: qrect_defs)
  have w: "width (ov_sel ?s) \<le> 10"
    by (simp add: sel) (simp add: qrect_defs)
  show ?thesis
    using nd nn w enter_confirms_any_selection [OF refl nd nn, of Key_Enter]
    by (simp add: sel)
qed

section \<open>Properties of the native picker\<close>

lemma slop_branch_nonzero:
  "rc \<noteq> 0 \<Longrightarrow> slop_branch (Completed rc out) = Returns None"
  by (simp add: slop_branch_def)

lemma slop_branch_parsed:
  assumes "map py_int (py_split (strip out)) = [Some x, Some y, Some w, Some h]"
    and "4 < w" and "4 < h" and "c_int x" and "c_int y" and "c_int w" and "c_int h"
  shows "slop_branch (Completed 0 out) = Returns (Some (QRect_xywh x y w h))"
proof -
  obtain a b c d where ps: "py_split (strip out) = [a, b, c, d]"
    and v: "py_int a = Some x" "py_int b = Some y" "py_int c = Some w" "py_int d = Some h"
    using assms(1) by (auto simp add: map_eq_Cons_conv)
  show ?thesis
    using assms(2-) v by (simp add: slop_branch_def ps)
qed

lemma native_done_valid:
  assumes "4 < w" and "4 < h"
  shows "isValid (QRect_xywh x y w h)"
    and "on_native_done (QRect_xywh x y w h) = area_selected (QRect_xywh x y w h)"
  using assms by (simp_all add: on_native_done_def qrect_defs)

text \<open>
  Claim C9. When the preferred tool \<open>slop\<close> is installed, a non-zero exit code resolves the
  selection to \<open>cancelled\<close>; a zero exit whose output splits into exactly four fields that
  parse as integers \<open>x y w h\<close> with \<open>w > 4\<close> and \<open>h > 4\<close> resolves it to
  \<open>area_selected\<close> with the rectangle \<open>(x, y, w, h)\<close>. The integers are pixel
  coordinates: they and the rectangle's far corner fit Qt's 32-bit \<open>int\<close>.
\<close>

theorem native_picker_outcome:
  assumes "which_slop env"
  shows "(slop_result env = Completed rc out \<and> rc \<noteq> 0 \<longrightarrow> start env = NativeActive cancelled) \<and>
         (slop_result env = Completed 0 out \<and>
          map py_int (py_split (strip out)) = [Some x, Some y, Some w, Some h] \<and>
          4 < w \<and> 4 < h \<and> c_int x \<and> c_int y \<and> c_int w \<and> c_int h \<and>
          c_int (x + w - 1) \<and> c_int (y + h - 1) \<longrightarrow>
            start env = NativeActive (area_selected (QRect_xywh x y w h)))"
proof (intro conjI impI)
  assume "slop_result env = Completed rc out \<and> rc \<noteq> 0"
  then have "select_area_native env = None"
    using assms by (simp add: select_area_native_def slop_branch_nonzero)
  then show "start env = NativeActive cancelled"
    using assms by (simp add: start_def slop_thread_run_def on_native_done_def qrect_defs)
next
  assume a: "slop_result env = Completed 0 out \<and>
          map py_int (py_split (strip out)) = [Some x, Some y, Some w, Some h] \<and>
          4 < w \<and> 4 < h \<and> c_int x \<and> c_int y \<and> c_int w \<and> c_int h \<and>
          c_int (x + w - 1) \<and> c_int (y + h - 1)"
  then have "slop_branch (slop_result env) = Returns (Some (QRect_xywh x y w h))"
    by (simp add: slop_branch_parsed)
  then have "select_area_native env = Some (QRect_xywh x y w h)"
    using assms by (simp add: select_area_native_def)
  then show "start env = NativeActive (area_selected (QRect_xywh x y w h))"
    using assms a by (simp add: start_def slop_thread_run_def native_done_valid)
qed

theorem native_picker_outcome_witness:
  "start \<lparr>which_slop = True, slop_result = Completed 1 [], which_scrot = True,
      scrot_result = Raised, tmp_exists = False, image_size = None\<rparr> = NativeActive cancelled \<and>
   map py_int (py_split (strip (''10 20 300 200'' @ [CHR 0x0A]))) =
     [Some 10, Some 20, Some 300, Some 200] \<and>
   start \<lparr>which_slop = True, slop_result = Completed 0 (''10 20 300 200'' @ [CHR 0x0A]),
      which_scrot = False, scrot_result = Raised, tmp_exists = False, image_size = None\<rparr> =
     NativeActive (area_selected (QRect_xywh 10 20 300 200))"
proof -
  have p: "map py_int (py_split (strip (''10 20 300 200'' @ [CHR 0x0A]))) =
     [Some 10, Some 20, Some 300, Some 200]"
    by (simp add: py_split_def strip_def py_isspace_def py_int_def is_digit_def digit_val_def)
  have c: "c_int 10" "c_int 20" "c_int 300" "c_int 200" "c_int (10 + 300 - 1)" "c_int (20 + 200 - 1)"
    by (simp_all add: c_int_def)
  show ?thesis
    using p c
      native_picker_outcome [of "\<lparr>which_slop = True, slop_result = Completed 1 [], which_scrot = True,
        scrot_result = Raised, tmp_exists = False, image_size = None\<rparr>" 1 "[]"]
      native_picker_outcome [of "\<lparr>which_slop = True,
        slop_result = Completed 0 (''10 20 300 200'' @ [CHR 0x0A]),
        which_scrot = False, scrot_result = Raised, tmp_exists = False, image_size = None\<rparr>"
        _ "''10 20 300 200'' @ [CHR 0x0A]" 10 20 300 200]
    by simp
qed

section \<open>Properties of the audio source\<close>

lemma first_source_find:
  assumes "\<forall>l \<in> set lines. 2 \<le> length (py_split l)"
  shows "first_source lines = map_option (\<lambda>l. py_split l ! 1) (find non_monitor lines)"
  using assms by (induction lines) (simp_all add: non_monitor_def Let_def)

lemma lines_from_nonempty: "cur \<noteq> [] \<or> s \<noteq> [] \<Longrightarrow> lines_from cur s \<noteq> []"
  by (induction s arbitrary: cur) (auto split: list.splits)

lemma splitlines_nonempty: "s \<noteq> [] \<Longrightarrow> splitlines s \<noteq> []"
  by (simp add: splitlines_def lines_from_nonempty)

lemma sources_step_wellformed:
  assumes "lines = splitlines (strip out)" and "strip out \<noteq> []"
    and "\<forall>l \<in> set lines. 2 \<le> length (py_split l)"
  shows "sources_step out =
           Returns (''pulse'',
             py_split (case find non_monitor lines of Some l \<Rightarrow> l | None \<Rightarrow> hd lines) ! 1)"
proof -
  have step: "sources_step out =
     (case first_source lines of
        Some src \<Rightarrow> Returns (''pulse'', src)
      | None \<Rightarrow>
          (case lines of
             [] \<Rightarrow> Falls_through
           | l # _ \<Rightarrow>
               (if 2 \<le> length (py_split l) then Returns (''pulse'', py_split l ! 1)
                else Returns (''pulse'', ''default''))))"
    by (simp add: sources_step_def Let_def assms(1) [symmetric]
        split: option.split list.split)
  have "lines \<noteq> []"
    using assms(1,2) by (simp add: splitlines_nonempty)
  then obtain l ls where ls: "lines = l # ls"
    by (cases lines) auto
  have two: "2 \<le> length (py_split l)"
    using assms(3) ls by simp
  show ?thesis
  proof (cases "find non_monitor lines")
    case None
    then show ?thesis
      using first_source_find [OF assms(3)] two by (simp add: step ls)
  next
    case (Some a)
    then show ?thesis
      using first_source_find [OF assms(3)] by (simp add: step)
  qed
qed

text \<open>
  Claim C8. When the probe that answers (\<open>pactl\<close> behind PipeWire, or \<open>pactl\<close> alone when
  PipeWire does not answer) lists at least one source, each line holding an index and a
  name, the resolver returns the \<open>pulse\<close> driver with the name of the first line that does
  not contain "monitor" in any letter case, and with the name of the first line when every
  line contains it. For the list of \<open>alsa_output.monitor\<close> followed by \<open>alsa_input.usb\<close>
  the result is \<open>("pulse", "alsa_input.usb")\<close>.
\<close>

theorem audio_source_prefers_non_monitor:
  assumes "lines = splitlines (strip out)" and "strip out \<noteq> []"
    and "\<forall>l \<in> set lines. 2 \<le> length (py_split l)"
    and "(answers (pw_cli env) \<and> pactl_pipewire env = Completed 0 out) \<or>
         (\<not> answers (pw_cli env) \<and> pactl_pulse env = Completed 0 out)"
  shows "detect_audio_source env =
           (''pulse'',
            py_split (case find non_monitor lines of Some l \<Rightarrow> l | None \<Rightarrow> hd lines) ! 1)"
  using assms(4)
proof
  assume "answers (pw_cli env) \<and> pactl_pipewire env = Completed 0 out"
  then have "pipewire_step env = sources_step out"
    using assms(2) by (simp add: pipewire_step_def)
  then show ?thesis
    by (simp add: detect_audio_source_def or_else_def sources_step_wellformed [OF assms(1-3)])
next
  assume a: "\<not> answers (pw_cli env) \<and> pactl_pulse env = Completed 0 out"
  then have "pipewire_step env = Falls_through"
    by (simp add: pipewire_step_def)
  moreover have "pulse_step env = sources_step out"
    using a assms(2) by (simp add: pulse_step_def answers_def stdout_of_def)
  ultimately show ?thesis
    by (simp add: detect_audio_source_def or_else_def sources_step_wellformed [OF assms(1-3)])
qed

lemma example_sources_lines:
  "splitlines (strip example_sources) = [monitor_line, usb_line]"
  by (simp add: example_sources_def monitor_line_def usb_line_def splitlines_def strip_def
      py_isspace_def is_linebreak_def)

lemma example_sources_fields:
  "py_split monitor_line = [''0'', ''alsa_output.monitor'', ''PipeWire'']"
  "py_split usb_line = [''1'', ''alsa_input.usb'', ''PipeWire'']"
  by (simp_all add: monitor_line_def usb_line_def py_split_def py_isspace_def)

lemma example_sources_monitor:
  "\<not> non_monitor monitor_line"
  "non_monitor usb_line"
  by (simp_all add: monitor_line_def usb_line_def non_monitor_def lower_def lower_char_def
      char_eval)

theorem audio_source_prefers_non_monitor_witness:
  "strip example_sources \<noteq> [] \<and>
   splitlines (strip example_sources) = [monitor_line, usb_line] \<and>
   2 \<le> length (py_split monitor_line) \<and> 2 \<le> length (py_split usb_line) \<and>
   answers (Completed 0 ''id 31, type PipeWire:Interface:Node'') \<and>
   detect_audio_source
     \<lparr>pw_cli = Completed 0 ''id 31, type PipeWire:Interface:Node'',
      pactl_pipewire = Completed 0 example_sources, pactl_pulse = Raised,
      pulseaudio_check = Raised, arecord = Raised\<rparr> = (''pulse'', ''alsa_input.usb'')"
proof -
  have ne: "strip example_sources \<noteq> []"
    using example_sources_lines by (auto simp add: splitlines_def)
  have wf: "\<forall>l \<in> set (splitlines (strip example_sources)). 2 \<le> length (py_split l)"
    by (simp add: example_sources_lines example_sources_fields)
  have an: "answers (Completed 0 ''id 31, type PipeWire:Interface:Node'')"
    by (simp add: answers_def strip_def py_isspace_def)
  show ?thesis
    using ne an
      audio_source_prefers_non_monitor [OF refl ne wf, of
        "\<lparr>pw_cli = Completed 0 ''id 31, type PipeWire:Interface:Node'',
          pactl_pipewire = Completed 0 example_sources, pactl_pulse = Raised,
          pulseaudio_check = Raised, arecord = Raised\<rparr>"]
    by (simp add: example_sources_lines example_sources_fields example_sources_monitor)
qed

section \<open>Properties of the encoder command\<close>







lemma prepare_small:
  assumes "effective_geometry (cfg_area c) (screen env) = (x, y, w, h)" and "w < 2 \<or> h < 2"
  shows "prepare c env = Inl ''Selected area is too small.''"
  using assms by (auto simp add: prepare_def Let_def split: prod.splits)

lemma prepare_large:
  assumes "effective_geometry (cfg_area c) (screen env) = (x, y, w, h)"
    and "\<not> (w < 2 \<or> h < 2)"
    and "dict_get (map_of QUALITY (dict_get (cfg_quality c) 2)) (18, ''medium'') = (crf, preset)"
    and "audio_input (dict_get (cfg_audio c) False) (audio_probes env) = (audio_args, audio_idx)"
    and "webcam_input (dict_get (cfg_webcam c) False) (video0_exists env) audio_idx =
           (webcam_args, webcam_idx)"
  shows "prepare c env =
           Inr (screen_input (dict_get (cfg_fps c) 30) w h (dict_get (display_var env) '':0'') x y @
                audio_args @ webcam_args @ filters c webcam_idx audio_idx w h @
                codec crf preset audio_idx @
                [fst (splitext (dict_get (cfg_output c) ''/tmp/komocap_rec.mp4'')) @
                 (if dict_get (cfg_quality c) 2 = 4 then ''.mkv'' else ''.mp4'')],
                fst (splitext (dict_get (cfg_output c) ''/tmp/komocap_rec.mp4'')) @
                 (if dict_get (cfg_quality c) 2 = 4 then ''.mkv'' else ''.mp4''))"
  using assms by (simp add: prepare_def Let_def)

lemma prepare_Inr_large:
  assumes "prepare c env = Inr (cmd, final)"
    and "effective_geometry (cfg_area c) (screen env) = (x, y, w, h)"
  shows "\<not> (w < 2 \<or> h < 2)"
  using assms prepare_small [OF assms(2)] by auto

text \<open>The fixed table, read off \<open>QUALITY.get(qi, (18, "medium"))\<close>.\<close>

lemma quality_lookup:
  "dict_get (map_of QUALITY qi) (18, ''medium'') =
     (if qi = 0 then (45, ''ultrafast'')
      else if qi = 1 then (28, ''fast'')
      else if qi = 2 then (18, ''medium'')
      else if qi = 3 then (12, ''slow'')
      else if qi = 4 then (0, ''veryslow'')
      else (18, ''medium''))"
  by (simp add: QUALITY_def dict_get_def)

lemma example_geometry:
  "effective_geometry (cfg_area example_cfg) (screen example_env) = (0, 0, 1920, 1080)"
  by (simp add: effective_geometry_def example_cfg_def example_env_def qrect_defs)

lemma example_splitext:
  "splitext ''/home/u/KomoCap/Recordings/rec.mp4'' = (''/home/u/KomoCap/Recordings/rec'', ''.mp4'')"
  by (simp add: splitext_def rfind_def Let_def)

lemma example_prepare:
  "prepare example_cfg example_env = Inr (example_cmd, ''/home/u/KomoCap/Recordings/rec.mp4'')"
  by (simp add: prepare_def example_geometry Let_def)
     (simp add: example_cfg_def example_env_def example_cmd_def dict_get_def QUALITY_def
       example_splitext screen_input_def audio_input_def webcam_input_def filters_def codec_def
       str_int_def str_nat.simps char_eval)



lemma example_lossless_prepare:
  "prepare (example_cfg\<lparr>cfg_quality := Some 4\<rparr>) example_env =
     Inr ([''ffmpeg'', ''-y'', ''-f'', ''x11grab'', ''-r'', ''30'', ''-s'', ''1920x1080'',
           ''-i'', '':0+0,0'', ''-vf'', ''scale=1920:1080'', ''-c:v'', ''libx264'',
           ''-crf'', ''0'', ''-preset'', ''veryslow'', ''-pix_fmt'', ''yuv420p'',
           ''-movflags'', ''+faststart'', ''/home/u/KomoCap/Recordings/rec.mkv''],
          ''/home/u/KomoCap/Recordings/rec.mkv'')"
  by (simp add: prepare_def Let_def example_cfg_def example_env_def effective_geometry_def
      qrect_defs dict_get_def QUALITY_def example_splitext screen_input_def audio_input_def
      webcam_input_def filters_def codec_def str_int_def str_nat.simps char_eval)
















text \<open>
  Claim C7. In every argument vector that \<open>run\<close> builds, the codec settings stand just
  before the optional audio codec settings and the output path, and hold the
  compression factor and speed preset of the quality tier: (45, ultrafast), (28, fast),
  (18, medium), (12, slow), (0, veryslow) for the tiers 0 to 4, and (18, medium) for
  every other index. The output path is the configured path without its extension,
  followed by \<open>.mkv\<close> when the tier is 4 and by \<open>.mp4\<close> otherwise.
\<close>

theorem quality_tier_table:
  assumes "prepare c env = Inr (cmd, final)"
    and "qi = dict_get (cfg_quality c) 2"
    and "(crf, preset) =
           (if qi = 0 then (45, ''ultrafast'')
            else if qi = 1 then (28, ''fast'')
            else if qi = 2 then (18, ''medium'')
            else if qi = 3 then (12, ''slow'')
            else if qi = 4 then (0, ''veryslow'')
            else (18, ''medium''))"
  shows "(\<exists>front rest.
            cmd = front @
                  [''-c:v'', ''libx264'', ''-crf'', str_int crf, ''-preset'', preset,
                   ''-pix_fmt'', ''yuv420p'', ''-movflags'', ''+faststart''] @ rest @ [final] \<and>
            (rest = [] \<or>
             rest = [''-c:a'', ''aac'', ''-b:a'', ''192k'', ''-ac'', ''2'', ''-ar'', ''44100''])) \<and>
         final = fst (splitext (dict_get (cfg_output c) ''/tmp/komocap_rec.mp4'')) @
                 (if qi = 4 then ''.mkv'' else ''.mp4'') \<and>
         drop (length final - 4) final = (if qi = 4 then ''.mkv'' else ''.mp4'')"
proof -
  obtain x y w h where g: "effective_geometry (cfg_area c) (screen env) = (x, y, w, h)"
    by (cases "effective_geometry (cfg_area c) (screen env)") auto
  have q: "dict_get (map_of QUALITY (dict_get (cfg_quality c) 2)) (18, ''medium'') = (crf, preset)"
    using assms(2,3) by (simp only: quality_lookup)
  obtain audio_args audio_idx where a:
    "audio_input (dict_get (cfg_audio c) False) (audio_probes env) = (audio_args, audio_idx)"
    by (cases "audio_input (dict_get (cfg_audio c) False) (audio_probes env)")
  obtain webcam_args webcam_idx where v:
    "webcam_input (dict_get (cfg_webcam c) False) (video0_exists env) audio_idx =
       (webcam_args, webcam_idx)"
    by (cases "webcam_input (dict_get (cfg_webcam c) False) (video0_exists env) audio_idx")
  let ?front = "screen_input (dict_get (cfg_fps c) 30) w h (dict_get (display_var env) '':0'') x y @
                audio_args @ webcam_args @ filters c webcam_idx audio_idx w h"
  let ?rest = "if audio_idx \<noteq> None
      then [''-c:a'', ''aac'', ''-b:a'', ''192k'', ''-ac'', ''2'', ''-ar'', ''44100'']
      else []"
  have pr: "prepare c env = Inr (?front @ codec crf preset audio_idx @
                [fst (splitext (dict_get (cfg_output c) ''/tmp/komocap_rec.mp4'')) @
                 (if dict_get (cfg_quality c) 2 = 4 then ''.mkv'' else ''.mp4'')],
                fst (splitext (dict_get (cfg_output c) ''/tmp/komocap_rec.mp4'')) @
                 (if dict_get (cfg_quality c) 2 = 4 then ''.mkv'' else ''.mp4''))"
    using prepare_large [OF g prepare_Inr_large [OF assms(1) g] q a v] by simp
  have f: "final = fst (splitext (dict_get (cfg_output c) ''/tmp/komocap_rec.mp4'')) @
                 (if qi = 4 then ''.mkv'' else ''.mp4'')"
    using assms(1,2) pr by simp
  have c: "cmd = ?front @
                  [''-c:v'', ''libx264'', ''-crf'', str_int crf, ''-preset'', preset,
                   ''-pix_fmt'', ''yuv420p'', ''-movflags'', ''+faststart''] @ ?rest @ [final]"
    using assms(1,2) pr f by (simp add: codec_def)
  have b: "?rest = [] \<or>
           ?rest = [''-c:a'', ''aac'', ''-b:a'', ''192k'', ''-ac'', ''2'', ''-ar'', ''44100'']"
    by simp
  have d: "drop (length final - 4) final = (if qi = 4 then ''.mkv'' else ''.mp4'')"
    by (simp add: f)
  from c b f d show ?thesis by blast
qed

theorem quality_tier_table_witness:
  "prepare example_cfg example_env = Inr (example_cmd, ''/home/u/KomoCap/Recordings/rec.mp4'') \<and>
   dict_get (cfg_quality example_cfg) 2 = 2 \<and>
   (\<exists>front rest.
      example_cmd = front @
        [''-c:v'', ''libx264'', ''-crf'', ''18'', ''-preset'', ''medium'',
         ''-pix_fmt'', ''yuv420p'', ''-movflags'', ''+faststart''] @ rest @
        [''/home/u/KomoCap/Recordings/rec.mp4'']) \<and>
   dict_get (cfg_quality (example_cfg\<lparr>cfg_quality := Some 4\<rparr>)) 2 = 4 \<and>
   snd (projr (prepare (example_cfg\<lparr>cfg_quality := Some 4\<rparr>) example_env)) =
     ''/home/u/KomoCap/Recordings/rec.mkv''"
proof -
  have q: "(2::int) = dict_get (cfg_quality example_cfg) 2"
    by (simp add: example_cfg_def dict_get_def)
  have t: "(18::int, ''medium'') =
           (if (2::int) = 0 then (45, ''ultrafast'')
            else if (2::int) = 1 then (28, ''fast'')
            else if (2::int) = 2 then (18, ''medium'')
            else if (2::int) = 3 then (12, ''slow'')
            else if (2::int) = 4 then (0, ''veryslow'')
            else (18, ''medium''))"
    by simp
  have s: "str_int 18 = ''18''"
    by (simp add: str_int_def str_nat.simps char_eval)
  have q4: "(4::int) = dict_get (cfg_quality (example_cfg\<lparr>cfg_quality := Some 4\<rparr>)) 2"
    by (simp add: dict_get_def)
  have t4: "(0::int, ''veryslow'') =
           (if (4::int) = 0 then (45, ''ultrafast'')
            else if (4::int) = 1 then (28, ''fast'')
            else if (4::int) = 2 then (18, ''medium'')
            else if (4::int) = 3 then (12, ''slow'')
            else if (4::int) = 4 then (0, ''veryslow'')
            else (18, ''medium''))"
    by simp
  have a: "\<exists>front rest.
      example_cmd = front @
        [''-c:v'', ''libx264'', ''-crf'', ''18'', ''-preset'', ''medium'',
         ''-pix_fmt'', ''yuv420p'', ''-movflags'', ''+faststart''] @ rest @
        [''/home/u/KomoCap/Recordings/rec.mp4'']"
    using conjunct1 [OF quality_tier_table [OF example_prepare q t]] unfolding s by blast
  have b: "snd (projr (prepare (example_cfg\<lparr>cfg_quality := Some 4\<rparr>) example_env)) =
     ''/home/u/KomoCap/Recordings/rec.mkv''"
    using conjunct2 [OF quality_tier_table [OF example_lossless_prepare q4 t4]]
    unfolding example_lossless_prepare by simp
  show ?thesis
    by (rule conjI [OF example_prepare conjI [OF q [symmetric] conjI [OF a
          conjI [OF q4 [symmetric] b]]]])
qed

section \<open>Properties of the recording session\<close>

lemma prepare_last:
  assumes "prepare c env = Inr (cmd, final)"
  shows "cmd \<noteq> [] \<and> last cmd = final"
  using assms by (auto simp add: prepare_def Let_def split: prod.splits if_splits)

lemma terminal_simps [simp]:
  "\<not> terminal (sig_status m)" "terminal (sig_done f)" "terminal (sig_error m)"
  by (simp_all add: terminal_def)

lemma rec_inv_init: "rec_inv (recorder_init c)"
  by (simp add: rec_inv_def recorder_init_def terminal_count_def)

lemma rec_inv_run_start:
  assumes "rec_inv r" and "pc r = NotStarted"
  shows "rec_inv (run_start env r)"
proof (cases "prepare (rec_cfg r) env")
  case (Inl msg)
  then show ?thesis
    using assms by (simp add: run_start_def rec_inv_def terminal_count_def emit_def)
next
  case (Inr b)
  obtain cmd final where b: "b = (cmd, final)"
    by (cases b)
  have l: "cmd \<noteq> [] \<and> last cmd = final"
    using Inr b prepare_last by simp
  show ?thesis
    using assms Inr b l
    by (cases "popen env") (simp_all add: run_start_def rec_inv_def terminal_count_def emit_def)
qed

lemma rec_inv_proc_exit: "rec_inv r \<Longrightarrow> rec_inv (proc_exit rc r)"
  by (auto simp add: proc_exit_def rec_inv_def terminal_count_def
      split: option.splits run_pc.splits)

lemma rec_inv_run_finish: "rec_inv r \<Longrightarrow> rec_inv (run_finish fe r)"
  by (auto simp add: run_finish_def rec_inv_def terminal_count_def emit_def
      split: option.splits run_pc.splits)

lemma stop_keeps:
  "rec_signals (stop e r) = rec_signals r" "pc (stop e r) = pc r" "rec_cfg (stop e r) = rec_cfg r"
  "stop_flag (stop e r)"
  by (simp_all add: stop_def Let_def split: option.splits)

lemma stop_argv:
  "map_option argv (proc (stop e r)) = map_option argv (proc r)"
  by (simp add: stop_def Let_def split: option.splits)

lemma rec_inv_stop: "rec_inv r \<Longrightarrow> rec_inv (stop e r)"
  using stop_argv [of e r]
  by (auto simp add: rec_inv_def terminal_count_def stop_keeps split: option.splits run_pc.splits)

lemma rec_inv_step: "rec_inv r \<Longrightarrow> rec_inv (rec_step r e)"
  by (cases e) (simp_all add: rec_inv_run_start rec_inv_proc_exit rec_inv_run_finish rec_inv_stop)

lemma rec_inv_run: "rec_inv r \<Longrightarrow> rec_inv (rec_run r evs)"
  unfolding rec_run_def
  by (induction evs arbitrary: r) (simp_all add: rec_inv_step)

lemma rec_reachable_inv: "rec_inv (rec_run (recorder_init c) evs)"
  by (rule rec_inv_run [OF rec_inv_init])

text \<open>The flag is set only by \<open>stop\<close>.\<close>

lemma stop_flag_step:
  "stop_flag (rec_step r e) \<longleftrightarrow> stop_flag r \<or> (\<exists>se. e = Stop se)"
  by (cases e)
     (auto simp add: run_start_def emit_def proc_exit_def run_finish_def stop_keeps
       split: sum.splits prod.splits popen_result.splits option.splits run_pc.splits)

lemma stop_flag_run:
  "stop_flag (rec_run r evs) \<longleftrightarrow> stop_flag r \<or> (\<exists>se. Stop se \<in> set evs)"
  unfolding rec_run_def
  by (induction evs arbitrary: r) (auto simp add: stop_flag_step)

text \<open>What \<open>stop\<close> does, case by case.\<close>

lemma stop_not_running:
  assumes "\<forall>p. proc r = Some p \<longrightarrow> returncode p \<noteq> None"
  shows "stop e r = r\<lparr>stop_flag := True\<rparr>"
  using assms by (auto simp add: stop_def Let_def split: option.splits)

lemma stop_noop:
  assumes "\<forall>p. proc r = Some p \<longrightarrow> returncode p \<noteq> None" and "stop_flag r"
  shows "stop e r = r"
  using assms by (simp add: stop_not_running)

lemma stop_after_exit_in_wait:
  assumes "wait_result e1 \<noteq> None"
  shows "stop e2 (stop e1 r) = stop e1 r"
proof -
  have "\<forall>p. proc (stop e1 r) = Some p \<longrightarrow> returncode p \<noteq> None"
    using assms by (auto simp add: stop_def Let_def split: option.splits)
  then show ?thesis
    by (rule stop_noop) (rule stop_keeps(4))
qed

lemma stop_timeout_terminates:
  assumes "proc r = Some p" and "returncode p = None" and "wait_result e = None"
  shows "proc (stop e r) =
           Some (p\<lparr>stdin_written := stdin_written p @ (if stdin_ok e then [''q'' @ [CHR 0x0A]] else []),
                   terminate_calls := Suc (terminate_calls p)\<rparr>)"
  using assms by (simp add: stop_def Let_def)

lemma run_finish_exited:
  assumes "pc r = Waiting final" and "proc r = Some p" and "returncode p = Some rc"
  shows "run_finish fe r =
           r\<lparr>rec_signals := rec_signals r @
                 [if stop_flag r \<or> final_exists fe then sig_done final
                  else sig_error (failure_message fe rc)],
             pc := Returned\<rparr>"
  using assms by (simp add: run_finish_def emit_def)

lemma proc_exit_keeps:
  "pc (proc_exit rc r) = pc r" "rec_signals (proc_exit rc r) = rec_signals r"
  "stop_flag (proc_exit rc r) = stop_flag r"
  by (simp_all add: proc_exit_def split: option.splits)

lemma proc_exit_exited:
  assumes "proc r = Some p"
  shows "\<exists>p' rc'. proc (proc_exit rc r) = Some p' \<and> returncode p' = Some rc'"
  using assms by (cases "returncode p") (simp_all add: proc_exit_def)

lemma stop_proc_some:
  assumes "proc r = Some p"
  shows "\<exists>p'. proc (stop e r) = Some p'"
  using assms by (simp add: stop_def Let_def split: option.splits)

lemma example_started:
  "rec_run (recorder_init example_cfg) [RunStart example_env] =
     \<lparr>rec_cfg = example_cfg,
      proc = Some \<lparr>argv = example_cmd, returncode = None, stdin_written = [],
                   terminate_calls = 0\<rparr>,
      stop_flag = False, pc = Waiting ''/home/u/KomoCap/Recordings/rec.mp4'',
      rec_signals = [sig_status ''RECORDING'']\<rparr>"
  by (simp add: rec_run_def recorder_init_def run_start_def example_prepare)
     (simp add: example_env_def emit_def)

text \<open>
  Claim C2, as the code has it. \<open>stop\<close> itself emits no signal and does not move \<open>run\<close>,
  so that a session with any number of \<open>stop\<close> calls holds at most one terminal signal,
  and exactly one once \<open>run\<close> has returned; after two \<open>stop\<close> calls in a row and the exit
  of the encoder, \<open>run\<close> emits \<open>sig_done\<close>, once. A \<open>stop\<close> call changes nothing when the
  process has exited (or was never created) and the flag is already set, as after a first
  call during whose wait the process exited. A call made while the process still runs
  writes the quit command, waits and, on a timeout, calls \<open>terminate()\<close> once more.
\<close>

theorem stop_twice_one_terminal:
  assumes "r = rec_run (recorder_init c) evs"
  shows "length (filter terminal (rec_signals r)) \<le> 1 \<and>
         (length (filter terminal (rec_signals r)) = 1 \<longleftrightarrow> pc r = Returned) \<and>
         rec_signals (stop e r) = rec_signals r \<and> pc (stop e r) = pc r \<and>
         (wait_result e1 \<noteq> None \<longrightarrow> stop e2 (stop e1 r) = stop e1 r) \<and>
         ((\<forall>p. proc r = Some p \<longrightarrow> returncode p \<noteq> None) \<and> stop_flag r \<longrightarrow> stop e r = r) \<and>
         (pc r = Waiting final \<longrightarrow>
            rec_signals (run_finish fe (proc_exit rc (stop e2 (stop e1 r)))) =
              [sig_status ''RECORDING'', sig_done final] \<and>
            pc (run_finish fe (proc_exit rc (stop e2 (stop e1 r)))) = Returned) \<and>
         (\<forall>p. proc r = Some p \<and> returncode p = None \<and> wait_result e = None \<longrightarrow>
            proc (stop e r) =
              Some (p\<lparr>stdin_written :=
                        stdin_written p @ (if stdin_ok e then [''q'' @ [CHR 0x0A]] else []),
                      terminate_calls := Suc (terminate_calls p)\<rparr>))"
proof -
  have inv: "rec_inv r"
    using assms rec_reachable_inv by simp
  have i: "\<forall>p. proc r = Some p \<and> returncode p = None \<and> wait_result e = None \<longrightarrow>
            proc (stop e r) =
              Some (p\<lparr>stdin_written :=
                        stdin_written p @ (if stdin_ok e then [''q'' @ [CHR 0x0A]] else []),
                      terminate_calls := Suc (terminate_calls p)\<rparr>)"
    using stop_timeout_terminates by blast
  have a: "length (filter terminal (rec_signals r)) \<le> 1"
    and b: "length (filter terminal (rec_signals r)) = 1 \<longleftrightarrow> pc r = Returned"
    using inv by (simp_all add: rec_inv_def terminal_count_def)
  have c: "rec_signals (stop e r) = rec_signals r" and d: "pc (stop e r) = pc r"
    by (simp_all add: stop_keeps)
  have f: "wait_result e1 \<noteq> None \<longrightarrow> stop e2 (stop e1 r) = stop e1 r"
    by (simp add: stop_after_exit_in_wait)
  have g: "(\<forall>p. proc r = Some p \<longrightarrow> returncode p \<noteq> None) \<and> stop_flag r \<longrightarrow> stop e r = r"
    using stop_noop by blast
  have h: "rec_signals (run_finish fe (proc_exit rc (stop e2 (stop e1 r)))) =
              [sig_status ''RECORDING'', sig_done final] \<and>
            pc (run_finish fe (proc_exit rc (stop e2 (stop e1 r)))) = Returned"
    if w: "pc r = Waiting final"
  proof -
    let ?s = "stop e2 (stop e1 r)"
    obtain p where p: "proc r = Some p" and sg: "rec_signals r = [sig_status ''RECORDING'']"
      using inv w by (auto simp add: rec_inv_def split: option.splits)
    obtain p1 where "proc (stop e1 r) = Some p1"
      using stop_proc_some [OF p] by blast
    then obtain p2 where "proc ?s = Some p2"
      using stop_proc_some by blast
    then obtain p3 rc3 where p3: "proc (proc_exit rc ?s) = Some p3" "returncode p3 = Some rc3"
      using proc_exit_exited by blast
    have k: "pc (proc_exit rc ?s) = Waiting final" "stop_flag (proc_exit rc ?s)"
      "rec_signals (proc_exit rc ?s) = [sig_status ''RECORDING'']"
      by (simp_all add: proc_exit_keeps stop_keeps w sg)
    show ?thesis
      by (simp add: run_finish_exited [OF k(1) p3] k)
  qed
  from a b c d f g h i show ?thesis by blast
qed

theorem stop_twice_one_terminal_witness:
  "wait_result \<lparr>stdin_ok = True, wait_result = Some 255\<rparr> \<noteq> None \<and>
   pc (rec_run (recorder_init example_cfg)
         [RunStart example_env, Stop \<lparr>stdin_ok = True, wait_result = Some 255\<rparr>]) =
     Waiting ''/home/u/KomoCap/Recordings/rec.mp4'' \<and>
   stop_flag (rec_run (recorder_init example_cfg)
         [RunStart example_env, Stop \<lparr>stdin_ok = True, wait_result = Some 255\<rparr>]) \<and>
   map_option returncode (proc (rec_run (recorder_init example_cfg)
         [RunStart example_env, Stop \<lparr>stdin_ok = True, wait_result = Some 255\<rparr>])) =
     Some (Some 255) \<and>
   stop \<lparr>stdin_ok = True, wait_result = None\<rparr> (rec_run (recorder_init example_cfg)
         [RunStart example_env, Stop \<lparr>stdin_ok = True, wait_result = Some 255\<rparr>]) =
     rec_run (recorder_init example_cfg)
         [RunStart example_env, Stop \<lparr>stdin_ok = True, wait_result = Some 255\<rparr>] \<and>
   rec_signals (run_finish \<lparr>stderr_read = None, decode = id, final_exists = False\<rparr>
     (proc_exit 0
       (stop \<lparr>stdin_ok = True, wait_result = None\<rparr>
         (stop \<lparr>stdin_ok = True, wait_result = Some 255\<rparr>
           (rec_run (recorder_init example_cfg)
              [RunStart example_env, Stop \<lparr>stdin_ok = True, wait_result = Some 255\<rparr>]))))) =
     [sig_status ''RECORDING'', sig_done ''/home/u/KomoCap/Recordings/rec.mp4''] \<and>
   map_option returncode (proc (rec_run (recorder_init example_cfg) [RunStart example_env])) =
     Some None \<and>
   map_option terminate_calls (proc (stop \<lparr>stdin_ok = True, wait_result = None\<rparr>
     (rec_run (recorder_init example_cfg) [RunStart example_env]))) = Some 1"
proof -
  let ?e = "\<lparr>stdin_ok = True, wait_result = Some 255\<rparr>"
  let ?r = "rec_run (recorder_init example_cfg) [RunStart example_env, Stop ?e]"
  let ?started = "rec_run (recorder_init example_cfg) [RunStart example_env]"
  let ?running = "\<lparr>argv = example_cmd, returncode = None, stdin_written = [],
                   terminate_calls = 0\<rparr>"
  have p0: "proc ?started = Some ?running \<and> returncode ?running = None \<and>
            wait_result \<lparr>stdin_ok = True, wait_result = None\<rparr> = None"
    by (simp add: example_started)
  have c7: "map_option returncode (proc ?started) = Some None"
    by (simp add: example_started)
  have "proc (stop \<lparr>stdin_ok = True, wait_result = None\<rparr> ?started) =
          Some (?running\<lparr>stdin_written := stdin_written ?running @
                        (if stdin_ok \<lparr>stdin_ok = True, wait_result = None\<rparr>
                         then [''q'' @ [CHR 0x0A]] else []),
                      terminate_calls := Suc (terminate_calls ?running)\<rparr>)"
    using stop_twice_one_terminal [OF refl, of example_cfg "[RunStart example_env]"
        "\<lparr>stdin_ok = True, wait_result = None\<rparr>"] p0
    by blast
  then have c8: "map_option terminate_calls (proc (stop \<lparr>stdin_ok = True, wait_result = None\<rparr>
     ?started)) = Some 1"
    by simp
  have r: "?r = stop ?e (rec_run (recorder_init example_cfg) [RunStart example_env])"
    by (simp add: rec_run_def)
  have v: "?r =
     \<lparr>rec_cfg = example_cfg,
      proc = Some \<lparr>argv = example_cmd, returncode = Some 255,
                   stdin_written = [''q'' @ [CHR 0x0A]], terminate_calls = 0\<rparr>,
      stop_flag = True, pc = Waiting ''/home/u/KomoCap/Recordings/rec.mp4'',
      rec_signals = [sig_status ''RECORDING'']\<rparr>"
    unfolding r example_started by (simp add: stop_def)
  have w: "wait_result ?e \<noteq> None"
    by simp
  have x: "(\<forall>p. proc ?r = Some p \<longrightarrow> returncode p \<noteq> None) \<and> stop_flag ?r"
    by (simp add: v)
  have y: "pc ?r = Waiting ''/home/u/KomoCap/Recordings/rec.mp4''"
    by (simp add: v)
  note t = stop_twice_one_terminal [OF refl, of example_cfg
      "[RunStart example_env, Stop ?e]" "\<lparr>stdin_ok = True, wait_result = None\<rparr>" ?e
      "\<lparr>stdin_ok = True, wait_result = None\<rparr>" "''/home/u/KomoCap/Recordings/rec.mp4''"
      "\<lparr>stderr_read = None, decode = id, final_exists = False\<rparr>" 0]
  have f: "stop_flag ?r"
    by (simp add: v)
  have m: "map_option returncode (proc ?r) = Some (Some 255)"
    by (simp add: v)
  have c5: "stop \<lparr>stdin_ok = True, wait_result = None\<rparr> ?r = ?r"
    using t x by blast
  have c6: "rec_signals (run_finish \<lparr>stderr_read = None, decode = id, final_exists = False\<rparr>
     (proc_exit 0
       (stop \<lparr>stdin_ok = True, wait_result = None\<rparr> (stop ?e ?r)))) =
     [sig_status ''RECORDING'', sig_done ''/home/u/KomoCap/Recordings/rec.mp4'']"
    using t y by blast
  show ?thesis
    by (rule conjI [OF w conjI [OF y conjI [OF f conjI [OF m conjI [OF c5
          conjI [OF c6 conjI [OF c7 c8]]]]]]])
qed

text \<open>
  A second \<open>stop\<close> call made while the session is stopping and the process still runs is
  not a no-op: it writes the quit command and calls \<open>terminate()\<close> a second time.
\<close>

theorem stop_while_stopping_counterexample:
  "stop \<lparr>stdin_ok = True, wait_result = None\<rparr>
     (rec_run (recorder_init example_cfg)
        [RunStart example_env, Stop \<lparr>stdin_ok = True, wait_result = None\<rparr>]) \<noteq>
   rec_run (recorder_init example_cfg)
     [RunStart example_env, Stop \<lparr>stdin_ok = True, wait_result = None\<rparr>]"
proof -
  let ?e = "\<lparr>stdin_ok = True, wait_result = None\<rparr>"
  let ?r = "rec_run (recorder_init example_cfg) [RunStart example_env, Stop ?e]"
  have r: "?r = stop ?e (rec_run (recorder_init example_cfg) [RunStart example_env])"
    by (simp add: rec_run_def)
  have v: "?r =
     \<lparr>rec_cfg = example_cfg,
      proc = Some \<lparr>argv = example_cmd, returncode = None,
                   stdin_written = [''q'' @ [CHR 0x0A]], terminate_calls = Suc 0\<rparr>,
      stop_flag = True, pc = Waiting ''/home/u/KomoCap/Recordings/rec.mp4'',
      rec_signals = [sig_status ''RECORDING'']\<rparr>"
    unfolding r example_started by (simp add: stop_def)
  show ?thesis
    unfolding v by (simp add: stop_def)
qed

text \<open>
  Claim C3. In a session whose encoder was spawned and has exited, \<open>run\<close> emits exactly one
  more signal: \<open>sig_done\<close> with the final output path (the last argument of the encoder)
  if and only if the cancellation flag is set, which only a \<open>stop\<close> call does, or the
  output file exists, whatever the exit code; otherwise \<open>sig_error\<close> with the exit code
  and the last 600 characters of the first 3000 bytes read from standard error.
\<close>

theorem completion_success_iff:
  assumes "r = rec_run (recorder_init c) evs" and "pc r = Waiting final"
    and "proc r = Some p" and "returncode p = Some rc"
  shows "rec_signals (run_finish fe r) =
           [sig_status ''RECORDING'',
            if stop_flag r \<or> final_exists fe then sig_done final
            else sig_error (failure_message fe rc)] \<and>
         pc (run_finish fe r) = Returned \<and>
         (sig_done final \<in> set (rec_signals (run_finish fe r)) \<longleftrightarrow>
            stop_flag r \<or> final_exists fe) \<and>
         (sig_error (failure_message fe rc) \<in> set (rec_signals (run_finish fe r)) \<longleftrightarrow>
            \<not> (stop_flag r \<or> final_exists fe)) \<and>
         (stop_flag r \<longleftrightarrow> (\<exists>se. Stop se \<in> set evs)) \<and>
         last (argv p) = final \<and>
         failure_message fe rc =
           ''Recording failed (exit '' @ str_int rc @ '').'' @ [CHR 0x0A] @
           (let text = decode fe (case stderr_read fe of None \<Rightarrow> [] | Some b \<Rightarrow> take 3000 b)
            in drop (length text - 600) text)"
proof -
  have inv: "rec_inv r"
    using assms(1) rec_reachable_inv by simp
  have sg: "rec_signals r = [sig_status ''RECORDING'']" and la: "last (argv p) = final"
    using inv assms(2,3) by (simp_all add: rec_inv_def)
  have fl: "stop_flag r \<longleftrightarrow> (\<exists>se. Stop se \<in> set evs)"
    using assms(1) by (simp add: stop_flag_run recorder_init_def)
  have fm: "failure_message fe rc =
           ''Recording failed (exit '' @ str_int rc @ '').'' @ [CHR 0x0A] @
           (let text = decode fe (case stderr_read fe of None \<Rightarrow> [] | Some b \<Rightarrow> take 3000 b)
            in drop (length text - 600) text)"
    by (simp add: failure_message_def Let_def)
  have rf: "rec_signals (run_finish fe r) =
           [sig_status ''RECORDING'',
            if stop_flag r \<or> final_exists fe then sig_done final
            else sig_error (failure_message fe rc)]"
    and pr: "pc (run_finish fe r) = Returned"
    by (simp_all add: run_finish_exited [OF assms(2-4)] sg)
  have d: "sig_done final \<in> set (rec_signals (run_finish fe r)) \<longleftrightarrow>
            stop_flag r \<or> final_exists fe"
    and e: "sig_error (failure_message fe rc) \<in> set (rec_signals (run_finish fe r)) \<longleftrightarrow>
            \<not> (stop_flag r \<or> final_exists fe)"
    by (simp_all add: rf)
  from rf pr d e fl la fm show ?thesis by blast
qed

theorem completion_success_iff_witness:
  "pc (rec_run (recorder_init example_cfg)
         [RunStart example_env, Stop \<lparr>stdin_ok = True, wait_result = Some 255\<rparr>]) =
     Waiting ''/home/u/KomoCap/Recordings/rec.mp4'' \<and>
   map_option returncode (proc (rec_run (recorder_init example_cfg)
         [RunStart example_env, Stop \<lparr>stdin_ok = True, wait_result = Some 255\<rparr>])) =
     Some (Some 255) \<and>
   rec_signals (run_finish \<lparr>stderr_read = Some ''Exiting'', decode = id, final_exists = True\<rparr>
     (rec_run (recorder_init example_cfg)
        [RunStart example_env, Stop \<lparr>stdin_ok = True, wait_result = Some 255\<rparr>])) =
     [sig_status ''RECORDING'', sig_done ''/home/u/KomoCap/Recordings/rec.mp4'']"
proof -
  let ?e = "\<lparr>stdin_ok = True, wait_result = Some 255\<rparr>"
  let ?r = "rec_run (recorder_init example_cfg) [RunStart example_env, Stop ?e]"
  let ?p = "\<lparr>argv = example_cmd, returncode = Some 255,
                   stdin_written = [''q'' @ [CHR 0x0A]], terminate_calls = 0\<rparr>"
  have r: "?r = stop ?e (rec_run (recorder_init example_cfg) [RunStart example_env])"
    by (simp add: rec_run_def)
  have v: "?r =
     \<lparr>rec_cfg = example_cfg, proc = Some ?p,
      stop_flag = True, pc = Waiting ''/home/u/KomoCap/Recordings/rec.mp4'',
      rec_signals = [sig_status ''RECORDING'']\<rparr>"
    unfolding r example_started by (simp add: stop_def)
  have y: "pc ?r = Waiting ''/home/u/KomoCap/Recordings/rec.mp4''"
    and z: "proc ?r = Some ?p" and q: "returncode ?p = Some 255"
    by (simp_all add: v)
  have m: "map_option returncode (proc ?r) = Some (Some 255)"
    by (simp add: z)
  have f: "stop_flag ?r"
    by (simp add: v)
  have "rec_signals (run_finish \<lparr>stderr_read = Some ''Exiting'', decode = id, final_exists = True\<rparr> ?r) =
     [sig_status ''RECORDING'', sig_done ''/home/u/KomoCap/Recordings/rec.mp4'']"
    using conjunct1 [OF completion_success_iff [OF refl y z q,
        of "\<lparr>stderr_read = Some ''Exiting'', decode = id, final_exists = True\<rparr>"]] f
    by simp
  with y m show ?thesis by blast
qed

text \<open>
  While the process runs, neither a \<open>stop\<close> whose wait times out nor \<open>run\<close> itself moves
  the session: \<open>run\<close> stays in \<open>self._proc.wait()\<close>.
\<close>

lemma run_finish_running:
  assumes "proc r = Some p" and "returncode p = None"
  shows "run_finish fe r = r"
  using assms by (simp add: run_finish_def split: run_pc.splits)

lemma waiting_alive_step:
  assumes "pc r = Waiting final" and "\<exists>p. proc r = Some p \<and> returncode p = None"
    and "rec_signals r = sg" and "child_keeps_running ev"
  shows "pc (rec_step r ev) = Waiting final \<and>
         (\<exists>p. proc (rec_step r ev) = Some p \<and> returncode p = None) \<and>
         rec_signals (rec_step r ev) = sg"
proof (cases ev)
  case (RunStart env)
  then show ?thesis using assms by simp
next
  case (ProcExit rc)
  then show ?thesis using assms by (simp add: child_keeps_running_def)
next
  case (RunFinish fe)
  then show ?thesis using assms run_finish_running by auto
next
  case (Stop se)
  then have "wait_result se = None"
    using assms(4) by (simp add: child_keeps_running_def)
  then show ?thesis
    using Stop assms(1-3) by (auto simp add: stop_def Let_def)
qed

lemma waiting_alive_run:
  assumes "pc r = Waiting final" and "\<exists>p. proc r = Some p \<and> returncode p = None"
    and "rec_signals r = sg" and "list_all child_keeps_running evs"
  shows "pc (rec_run r evs) = Waiting final \<and>
         (\<exists>p. proc (rec_run r evs) = Some p \<and> returncode p = None) \<and>
         rec_signals (rec_run r evs) = sg"
  using assms unfolding rec_run_def
proof (induction evs arbitrary: r)
  case Nil
  then show ?case by simp
next
  case (Cons ev evs)
  have "pc (rec_step r ev) = Waiting final \<and>
         (\<exists>p. proc (rec_step r ev) = Some p \<and> returncode p = None) \<and>
         rec_signals (rec_step r ev) = sg"
    using Cons.prems by (intro waiting_alive_step) simp_all
  then show ?case
    using Cons.IH [of "rec_step r ev"] Cons.prems(4) by simp
qed

text \<open>
  Claim C4, as the code has it. When the encoder does not exit within the wait of \<open>stop\<close>,
  \<open>stop\<close> calls \<open>terminate()\<close> on it and returns, with \<open>run\<close> still waiting and no terminal
  signal emitted. As long as the process runs, whatever further timed-out \<open>stop\<close> calls
  are made, the session stays so: the code sets no bound on the delay. When the process
  exits, \<open>run\<close> emits \<open>sig_done\<close> with the final path and returns.
\<close>

theorem forced_stop_done_on_exit:
  assumes "r = rec_run (recorder_init c) evs" and "pc r = Waiting final"
    and "proc r = Some p" and "returncode p = None" and "wait_result e = None"
  shows "proc (stop e r) =
           Some (p\<lparr>stdin_written :=
                     stdin_written p @ (if stdin_ok e then [''q'' @ [CHR 0x0A]] else []),
                   terminate_calls := Suc (terminate_calls p)\<rparr>) \<and>
         pc (stop e r) = Waiting final \<and>
         rec_signals (stop e r) = [sig_status ''RECORDING''] \<and>
         (list_all child_keeps_running evs' \<longrightarrow>
            pc (rec_run (stop e r) evs') = Waiting final \<and>
            rec_signals (rec_run (stop e r) evs') = [sig_status ''RECORDING'']) \<and>
         rec_signals (run_finish fe (proc_exit rc (stop e r))) =
           [sig_status ''RECORDING'', sig_done final] \<and>
         pc (run_finish fe (proc_exit rc (stop e r))) = Returned"
proof -
  have inv: "rec_inv r"
    using assms(1) rec_reachable_inv by simp
  have sg: "rec_signals r = [sig_status ''RECORDING'']"
    using inv assms(2,3) by (simp add: rec_inv_def)
  have a: "proc (stop e r) =
           Some (p\<lparr>stdin_written :=
                     stdin_written p @ (if stdin_ok e then [''q'' @ [CHR 0x0A]] else []),
                   terminate_calls := Suc (terminate_calls p)\<rparr>)"
    by (rule stop_timeout_terminates [OF assms(3-5)])
  have b: "pc (stop e r) = Waiting final"
    and c: "rec_signals (stop e r) = [sig_status ''RECORDING'']"
    using assms(2) sg by (simp_all add: stop_keeps)
  have alive: "\<exists>p'. proc (stop e r) = Some p' \<and> returncode p' = None"
    using a assms(4) by simp
  have d: "list_all child_keeps_running evs' \<longrightarrow>
            pc (rec_run (stop e r) evs') = Waiting final \<and>
            rec_signals (rec_run (stop e r) evs') = [sig_status ''RECORDING'']"
    using waiting_alive_run [OF b alive c] by blast
  obtain p' where p': "proc (stop e r) = Some p'" "returncode p' = None"
    using alive by blast
  have ex: "proc (proc_exit rc (stop e r)) = Some (p'\<lparr>returncode := Some rc\<rparr>)"
    using p' by (simp add: proc_exit_def)
  have k: "pc (proc_exit rc (stop e r)) = Waiting final" "stop_flag (proc_exit rc (stop e r))"
    "rec_signals (proc_exit rc (stop e r)) = [sig_status ''RECORDING'']"
    using assms(2) sg by (simp_all add: proc_exit_keeps stop_keeps)
  have rc: "returncode (p'\<lparr>returncode := Some rc\<rparr>) = Some rc"
    by simp
  have f: "rec_signals (run_finish fe (proc_exit rc (stop e r))) =
           [sig_status ''RECORDING'', sig_done final]"
    and g: "pc (run_finish fe (proc_exit rc (stop e r))) = Returned"
    by (simp_all add: run_finish_exited [OF k(1) ex rc] k)
  show ?thesis
    by (rule conjI [OF a conjI [OF b conjI [OF c conjI [OF d conjI [OF f g]]]]])
qed

theorem forced_stop_done_on_exit_witness:
  "pc (rec_run (recorder_init example_cfg) [RunStart example_env]) =
     Waiting ''/home/u/KomoCap/Recordings/rec.mp4'' \<and>
   map_option returncode (proc (rec_run (recorder_init example_cfg) [RunStart example_env])) =
     Some None \<and>
   wait_result \<lparr>stdin_ok = True, wait_result = None\<rparr> = None \<and>
   map_option terminate_calls (proc (stop \<lparr>stdin_ok = True, wait_result = None\<rparr>
     (rec_run (recorder_init example_cfg) [RunStart example_env]))) = Some 1 \<and>
   list_all child_keeps_running
     [RunFinish \<lparr>stderr_read = None, decode = id, final_exists = True\<rparr>,
      Stop \<lparr>stdin_ok = False, wait_result = None\<rparr>] \<and>
   pc (rec_run (stop \<lparr>stdin_ok = True, wait_result = None\<rparr>
         (rec_run (recorder_init example_cfg) [RunStart example_env]))
       [RunFinish \<lparr>stderr_read = None, decode = id, final_exists = True\<rparr>,
        Stop \<lparr>stdin_ok = False, wait_result = None\<rparr>]) =
     Waiting ''/home/u/KomoCap/Recordings/rec.mp4'' \<and>
   rec_signals (run_finish \<lparr>stderr_read = None, decode = id, final_exists = False\<rparr>
     (proc_exit 255 (stop \<lparr>stdin_ok = True, wait_result = None\<rparr>
         (rec_run (recorder_init example_cfg) [RunStart example_env])))) =
     [sig_status ''RECORDING'', sig_done ''/home/u/KomoCap/Recordings/rec.mp4'']"
proof -
  let ?e = "\<lparr>stdin_ok = True, wait_result = None\<rparr>"
  let ?started = "rec_run (recorder_init example_cfg) [RunStart example_env]"
  let ?running = "\<lparr>argv = example_cmd, returncode = None, stdin_written = [],
                   terminate_calls = 0\<rparr>"
  let ?quiet = "[RunFinish \<lparr>stderr_read = None, decode = id, final_exists = True\<rparr>,
      Stop \<lparr>stdin_ok = False, wait_result = None\<rparr>]"
  have y: "pc ?started = Waiting ''/home/u/KomoCap/Recordings/rec.mp4''"
    and z: "proc ?started = Some ?running" and q: "returncode ?running = None"
    by (simp_all add: example_started)
  have m: "map_option returncode (proc ?started) = Some None"
    by (simp add: z)
  have w: "wait_result ?e = None"
    by simp
  have l: "list_all child_keeps_running ?quiet"
    by (simp add: child_keeps_running_def)
  note t = forced_stop_done_on_exit [OF refl y z q w, of ?quiet
      "\<lparr>stderr_read = None, decode = id, final_exists = False\<rparr>" 255]
  have c1: "map_option terminate_calls (proc (stop ?e ?started)) = Some 1"
    using conjunct1 [OF t] by simp
  have c2: "pc (rec_run (stop ?e ?started) ?quiet) = Waiting ''/home/u/KomoCap/Recordings/rec.mp4''"
    using t l by blast
  have c3: "rec_signals (run_finish \<lparr>stderr_read = None, decode = id, final_exists = False\<rparr>
     (proc_exit 255 (stop ?e ?started))) =
     [sig_status ''RECORDING'', sig_done ''/home/u/KomoCap/Recordings/rec.mp4'']"
    using t by blast
  show ?thesis
    by (rule conjI [OF y conjI [OF m conjI [OF w conjI [OF c1 conjI [OF l conjI [OF c2 c3]]]]]])
qed

text \<open>
  After a \<open>stop\<close> whose wait timed out, with the process still running, \<open>run\<close> has emitted
  no terminal signal and is still waiting; \<open>terminate()\<close> was called once.
\<close>

theorem forced_stop_still_waiting_counterexample:
  "pc (rec_run (recorder_init example_cfg)
         [RunStart example_env, Stop \<lparr>stdin_ok = True, wait_result = None\<rparr>,
          RunFinish \<lparr>stderr_read = None, decode = id, final_exists = True\<rparr>]) =
     Waiting ''/home/u/KomoCap/Recordings/rec.mp4'' \<and>
   rec_signals (rec_run (recorder_init example_cfg)
         [RunStart example_env, Stop \<lparr>stdin_ok = True, wait_result = None\<rparr>,
          RunFinish \<lparr>stderr_read = None, decode = id, final_exists = True\<rparr>]) =
     [sig_status ''RECORDING''] \<and>
   map_option terminate_calls (proc (rec_run (recorder_init example_cfg)
         [RunStart example_env, Stop \<lparr>stdin_ok = True, wait_result = None\<rparr>,
          RunFinish \<lparr>stderr_read = None, decode = id, final_exists = True\<rparr>])) = Some 1"
proof -
  let ?e = "\<lparr>stdin_ok = True, wait_result = None\<rparr>"
  let ?fe = "\<lparr>stderr_read = None, decode = id, final_exists = True\<rparr>"
  have r: "rec_run (recorder_init example_cfg) [RunStart example_env, Stop ?e, RunFinish ?fe] =
           run_finish ?fe (stop ?e (rec_run (recorder_init example_cfg) [RunStart example_env]))"
    by (simp add: rec_run_def)
  show ?thesis
    unfolding r example_started by (simp add: stop_def run_finish_def)
qed

end
